theory Spec2Isabelle
  imports Main
begin

section \<open>Values, frames and exceptions\<close>

text \<open>
  The connection engine of bjsonrpc (\<^verbatim>\<open>connection.py\<close>, \<^verbatim>\<open>proxies.py\<close>) as state-passing
  functions. Every function that the Python writes as a method of \<^verbatim>\<open>Connection\<close> takes
  the state and returns the new one; a raise is the \<open>Inl\<close> of a sum.

  Values that are not plain JSON data. A function or bound method carries its
  \<^verbatim>\<open>__name__\<close> and its \<^verbatim>\<open>_conn\<close> attribute (the identity of a connection, or nothing when
  the attribute is absent, as \<^verbatim>\<open>getattr(obj, '_conn', None)\<close> reads it). A
  \<^verbatim>\<open>RemoteObject\<close> carries its connection and its \<^verbatim>\<open>name\<close> (\<^verbatim>\<open>None\<close> once it is closed).
  Any other object is a reference into the heap of instances.
\<close>

datatype pyobj =
    Function string "nat option"
  | RemoteObject nat "string option"
  | Instance nat

text \<open>
  Python values as they travel in frames. A float is kept as mantissa and exponent and
  never computed with. A dictionary is the list of its items in insertion order, each key
  once.
\<close>

datatype pyval =
    PNone
  | PBool bool
  | PInt int
  | PFloat int int
  | PStr string
  | PList "pyval list"
  | PDict "(string \<times> pyval) list"
  | PObj pyobj

type_synonym pydict = "(string \<times> pyval) list"

text \<open>
  Exceptions: \<^verbatim>\<open>bjsonrpc.exceptions.ServerError\<close> with its message, and every other
  subclass of \<^verbatim>\<open>Exception\<close> by the name of its type and its \<^verbatim>\<open>str\<close>.
\<close>

datatype exc =
    ServerError string
  | Exc string string

fun etype :: "exc \<Rightarrow> string" where
  "etype (ServerError m) = ''ServerError''"
| "etype (Exc t m) = t"

fun evalue :: "exc \<Rightarrow> string" where
  "evalue (ServerError m) = m"
| "evalue (Exc t m) = m"

text \<open>
  A frame is a JSON object with the keys of the wire protocol, each absent or present:
  \<^verbatim>\<open>params\<close> is an array or an object and \<^verbatim>\<open>kwparams\<close> an object. The value under
  \<^verbatim>\<open>id\<close> is an integer; \<open>None\<close> stands for an absent key and for \<^verbatim>\<open>null\<close> alike, which
  \<^verbatim>\<open>item.setdefault('id', None)\<close> makes the same.
\<close>

datatype params =
    Positional "pyval list"
  | Keyword pydict

record frame =
  f_method :: "string option"
  f_id :: "int option"
  f_params :: "params option"
  f_kwparams :: "pydict option"
  f_result :: "pyval option"
  f_error :: "pyval option"

definition empty_frame :: frame where
  "empty_frame = \<lparr>f_method = None, f_id = None, f_params = None, f_kwparams = None,
     f_result = None, f_error = None\<rparr>"

section \<open>User code: handlers and hosted objects\<close>

text \<open>
  What \<^verbatim>\<open>get_method\<close> of a handler returns: a generator function, another callable, or a
  value that is not callable. A call of user code is modelled by its outcome: a callable
  returns a value or raises; a generator function yields a finite list of values and then
  finishes or raises (a failure to bind the arguments is a raise before the first value).
  User code does not touch the connection here.
\<close>

datatype fn =
    GeneratorFunction "pyval list \<Rightarrow> pydict \<Rightarrow> pyval list \<times> exc option"
  | Callable "pyval list \<Rightarrow> pydict \<Rightarrow> exc + pyval"
  | NotCallable pyval

text \<open>
  An instance in the heap: the name of its class, its \<^verbatim>\<open>repr\<close>, its \<^verbatim>\<open>get_method\<close>
  (if it has the attribute), the outcome of its \<^verbatim>\<open>_shutdown\<close> hook (if it has one), the
  outcome of \<^verbatim>\<open>float(obj)\<close>, and its \<^verbatim>\<open>__remoteobjects__\<close> attribute: absent, or a
  dictionary from connections to synthetic names.
\<close>

record pyinstance =
  class_name :: string
  obj_repr :: string
  get_method :: "(string \<Rightarrow> exc + fn) option"
  shutdown_hook :: "(exc + unit) option"
  to_float :: "exc + int \<times> int"
  remoteobjects :: "(nat \<times> string) list option"

section \<open>The connection\<close>

text \<open>
  Modelled from the spec: the Request handle of \<^verbatim>\<open>request.py\<close>, which is not among the
  sources. The spec gives it a request id and an \<^verbatim>\<open>auto_close\<close> flag; the responses it
  receives are kept in the state (\<open>delivered\<close>).
\<close>

record request =
  request_id :: int
  auto_close :: bool

text \<open>
  The state of one \<^verbatim>\<open>Connection\<close> and of the objects it shares with user code.
  \<open>self\<close> is the identity of the connection object; \<open>handler\<close> is set only when a
  handler factory was given; \<open>id_counter\<close> is \<^verbatim>\<open>_id\<close>, \<open>requests\<close> is \<^verbatim>\<open>_requests\<close>,
  \<open>objects\<close> is \<^verbatim>\<open>_objects\<close>. \<open>write_thread_queue\<close> holds the \<^verbatim>\<open>write_data\<close> of the items
  enqueued for the writer thread, oldest first; the thread that drains it is not modelled.
  \<open>started_threads\<close> are the items handed to a new dispatch thread. \<open>logged\<close> are the calls
  of the module's logger (level and format string), \<open>delivered\<close> the frames given to
  \<^verbatim>\<open>setresponse\<close>, \<open>shutdown_calls\<close> the objects whose \<^verbatim>\<open>_shutdown\<close> was called.
\<close>

record state =
  self :: nat
  handler :: "nat option"
  id_counter :: nat
  requests :: "int \<rightharpoonup> request"
  objects :: "string \<rightharpoonup> nat"
  threaded :: bool
  write_thread_queue :: "frame list"
  started_threads :: "frame list"
  heap :: "nat \<Rightarrow> pyinstance"
  logged :: "(string \<times> string) list"
  delivered :: "(int \<times> frame) list"
  shutdown_calls :: "nat list"

definition log_call :: "string \<Rightarrow> string \<Rightarrow> state \<Rightarrow> state" where
  "log_call level fmt s = s\<lparr>logged := logged s @ [(level, fmt)]\<rparr>"

subsection \<open>Strings and dictionaries of Python\<close>

text \<open>
  \<^verbatim>\<open>str.lower\<close> on the ASCII letters. Names of classes are taken to be ASCII: any other
  character is left as it is.
\<close>

definition lower_char :: "char \<Rightarrow> char" where
  "lower_char c =
     (let n = (of_char c :: nat) in if 65 \<le> n \<and> n \<le> 90 then char_of (n + 32) else c)"

definition lower :: "string \<Rightarrow> string" where
  "lower s = map lower_char s"

text \<open>\<^verbatim>\<open>"%04x" % n\<close> for a natural number: lower-case hexadecimal, padded with zeros to four digits.\<close>

fun hex_digits :: "nat \<Rightarrow> string" where
  "hex_digits n =
     (if n < 16 then [''0123456789abcdef'' ! n]
      else hex_digits (n div 16) @ [''0123456789abcdef'' ! (n mod 16)])"

declare hex_digits.simps [simp del]

definition hex4 :: "nat \<Rightarrow> string" where
  "hex4 n = (let d = hex_digits n in replicate (4 - length d) (CHR ''0'') @ d)"

text \<open>\<^verbatim>\<open>s.split(sep)\<close> for a separator of one character: every occurrence splits.\<close>

fun split_str :: "char \<Rightarrow> string \<Rightarrow> string list" where
  "split_str sep [] = [[]]"
| "split_str sep (c # cs) =
     (if c = sep then [] # split_str sep cs
      else (c # hd (split_str sep cs)) # tl (split_str sep cs))"

text \<open>A name between single quotes, as \<^verbatim>\<open>repr\<close> of a string gives it.\<close>

definition quote :: "string \<Rightarrow> string" where
  "quote t = CHR 0x27 # t @ [CHR 0x27]"

text \<open>\<^verbatim>\<open>d[k] = v\<close>: an existing key keeps its place, a new key goes last.\<close>

fun dict_set :: "('k \<times> 'v) list \<Rightarrow> 'k \<Rightarrow> 'v \<Rightarrow> ('k \<times> 'v) list" where
  "dict_set [] k v = [(k, v)]"
| "dict_set ((k', v') # d) k v =
     (if k' = k then (k', v) # d else (k', v') # dict_set d k v)"

text \<open>\<^verbatim>\<open>dict(pairs)\<close>: the pairs are stored one after the other.\<close>

definition dict_of_pairs :: "('k \<times> 'v) list \<Rightarrow> ('k \<times> 'v) list" where
  "dict_of_pairs ps = foldl (\<lambda>d (k, v). dict_set d k v) [] ps"

definition hint :: "string \<Rightarrow> pyval \<Rightarrow> pyval" where
  "hint key v = PDict [(key, v)]"

subsection \<open>Identifiers and the pending requests\<close>

definition get_id :: "state \<Rightarrow> nat \<times> state" where
  "get_id s = (id_counter s + 1, s\<lparr>id_counter := id_counter s + 1\<rparr>)"

definition addrequest :: "request \<Rightarrow> state \<Rightarrow> (exc + unit) \<times> state" where
  "addrequest rq s =
     (if requests s (request_id rq) \<noteq> None then (Inl (Exc ''AssertionError'' []), s)
      else (Inr (), s\<lparr>requests := (requests s)(request_id rq \<mapsto> rq)\<rparr>))"

definition delrequest :: "int \<Rightarrow> state \<Rightarrow> (exc + unit) \<times> state" where
  "delrequest req_id s =
     (if requests s req_id = None then (Inl (Exc ''KeyError'' []), s)
      else (Inr (), s\<lparr>requests := (requests s)(req_id := None)\<rparr>))"

subsection \<open>The encode hook\<close>

definition dump_functionreference :: "string \<Rightarrow> pyval" where
  "dump_functionreference name = hint ''__functionreference__'' (PStr name)"

definition dump_objectreference :: "string option \<Rightarrow> pyval" where
  "dump_objectreference name =
     hint ''__objectreference__'' (case name of None \<Rightarrow> PNone | Some n \<Rightarrow> PStr n)"

definition dump_remoteobject :: "nat \<Rightarrow> state \<Rightarrow> pyval \<times> state" where
  "dump_remoteobject r s =
     (let ros = (case remoteobjects (heap s r) of None \<Rightarrow> [] | Some d \<Rightarrow> d);
          s1 = s\<lparr>heap := (heap s)(r := (heap s r)\<lparr>remoteobjects := Some ros\<rparr>)\<rparr>
      in case map_of ros (self s1) of
           Some instancename \<Rightarrow> (hint ''__remoteobject__'' (PStr instancename), s1)
         | None \<Rightarrow>
             (let classname = class_name (heap s1 r);
                  (i, s2) = get_id s1;
                  instancename = lower classname @ ''_'' @ hex4 i;
                  s3 = s2\<lparr>objects := (objects s2)(instancename \<mapsto> r)\<rparr>;
                  s4 = s3\<lparr>heap := (heap s3)(r := (heap s3 r)\<lparr>remoteobjects :=
                         Some (dict_set ros (self s3) instancename)\<rparr>)\<rparr>
              in (hint ''__remoteobject__'' (PStr instancename), s4)))"

definition dump_object :: "pyobj \<Rightarrow> state \<Rightarrow> (exc + pyval) \<times> state" where
  "dump_object obj s =
     (case obj of
        Function name conn \<Rightarrow>
          (if conn \<noteq> Some (self s)
           then (Inl (Exc ''TypeError''
                   ''Tried to serialize as JSON a handler for another connection!''), s)
           else (Inr (dump_functionreference name), s))
      | RemoteObject conn name \<Rightarrow> (Inr (dump_objectreference name), s)
      | Instance r \<Rightarrow>
          (if class_name (heap s r) = ''Decimal''
           then (case to_float (heap s r) of
                   Inl e \<Rightarrow> (Inl e, s)
                 | Inr (m, e) \<Rightarrow> (Inr (PFloat m e), s))
           else if get_method (heap s r) \<noteq> None
           then (let (v, s') = dump_remoteobject r s in (Inr v, s'))
           else (Inl (Exc ''TypeError''
                   (''Python object '' @ obj_repr (heap s r) @
                    '' laks a 'get_method' and is not serializable!'')), s)))"

subsection \<open>The codec and the write queue\<close>

text \<open>
  Modelled from the spec: \<^verbatim>\<open>json.dumps(value, conn)\<close> of \<^verbatim>\<open>bjsonrpc.jsonlib\<close>, which is not
  among the sources. The spec has the codec encode the values it knows natively and call
  \<^verbatim>\<open>dump_object\<close> of the connection for any other value. The encoded frame stands for its
  text: rendering it as a line of JSON is left to the codec.
\<close>

fun encode :: "pyval \<Rightarrow> state \<Rightarrow> (exc + pyval) \<times> state"
  and encode_list :: "pyval list \<Rightarrow> state \<Rightarrow> (exc + pyval list) \<times> state"
  and encode_items :: "pydict \<Rightarrow> state \<Rightarrow> (exc + pydict) \<times> state"
where
  "encode PNone s = (Inr PNone, s)"
| "encode (PBool b) s = (Inr (PBool b), s)"
| "encode (PInt i) s = (Inr (PInt i), s)"
| "encode (PFloat m e) s = (Inr (PFloat m e), s)"
| "encode (PStr t) s = (Inr (PStr t), s)"
| "encode (PList xs) s =
     (case encode_list xs s of
        (Inl e, s') \<Rightarrow> (Inl e, s')
      | (Inr ys, s') \<Rightarrow> (Inr (PList ys), s'))"
| "encode (PDict d) s =
     (case encode_items d s of
        (Inl e, s') \<Rightarrow> (Inl e, s')
      | (Inr d', s') \<Rightarrow> (Inr (PDict d'), s'))"
| "encode (PObj obj) s = dump_object obj s"
| "encode_list [] s = (Inr [], s)"
| "encode_list (x # xs) s =
     (case encode x s of
        (Inl e, s') \<Rightarrow> (Inl e, s')
      | (Inr y, s') \<Rightarrow>
          (case encode_list xs s' of
             (Inl e, s'') \<Rightarrow> (Inl e, s'')
           | (Inr ys, s'') \<Rightarrow> (Inr (y # ys), s'')))"
| "encode_items [] s = (Inr [], s)"
| "encode_items ((k, v) # d) s =
     (case encode v s of
        (Inl e, s') \<Rightarrow> (Inl e, s')
      | (Inr v', s') \<Rightarrow>
          (case encode_items d s' of
             (Inl e, s'') \<Rightarrow> (Inl e, s'')
           | (Inr d', s'') \<Rightarrow> (Inr ((k, v') # d'), s'')))"

text \<open>Sequencing of two steps, the second skipped when the first raises.\<close>

definition bind ::
  "(exc + 'a) \<times> state \<Rightarrow> ('a \<Rightarrow> state \<Rightarrow> (exc + 'b) \<times> state) \<Rightarrow> (exc + 'b) \<times> state" where
  "bind r f = (case r of (Inl e, s) \<Rightarrow> (Inl e, s) | (Inr a, s) \<Rightarrow> f a s)"

definition encode_params :: "params \<Rightarrow> state \<Rightarrow> (exc + params) \<times> state" where
  "encode_params p s =
     (case p of
        Positional a \<Rightarrow> bind (encode_list a s) (\<lambda>a' s'. (Inr (Positional a'), s'))
      | Keyword d \<Rightarrow> bind (encode_items d s) (\<lambda>d' s'. (Inr (Keyword d'), s')))"

definition encode_option ::
  "('a \<Rightarrow> state \<Rightarrow> (exc + 'a) \<times> state) \<Rightarrow> 'a option \<Rightarrow> state \<Rightarrow> (exc + 'a option) \<times> state" where
  "encode_option enc x s =
     (case x of
        None \<Rightarrow> (Inr None, s)
      | Some v \<Rightarrow> bind (enc v s) (\<lambda>v' s'. (Inr (Some v'), s')))"

definition dumps :: "frame \<Rightarrow> state \<Rightarrow> (exc + frame) \<times> state" where
  "dumps fr s =
     bind (encode_option encode_params (f_params fr) s) (\<lambda>p s1.
     bind (encode_option encode_items (f_kwparams fr) s1) (\<lambda>k s2.
     bind (encode_option encode (f_result fr) s2) (\<lambda>r s3.
     bind (encode_option encode (f_error fr) s3) (\<lambda>e s4.
       (Inr (fr\<lparr>f_params := p, f_kwparams := k, f_result := r, f_error := e\<rparr>), s4)))))"

text \<open>
  \<^verbatim>\<open>write\<close> appends an item to the queue of the writer thread and returns at once.
\<close>

definition conn_write :: "frame \<Rightarrow> state \<Rightarrow> state" where
  "conn_write data s = s\<lparr>write_thread_queue := write_thread_queue s @ [data]\<rparr>"

text \<open>
  \<^verbatim>\<open>_send\<close>. When the codec raises, the handler of the exception builds a substitute
  response from \<^verbatim>\<open>item['id']\<close>; no \<^verbatim>\<open>item\<close> is in scope there, so that handler raises
  \<^verbatim>\<open>NameError\<close> after logging.
\<close>

definition send :: "frame \<Rightarrow> state \<Rightarrow> (exc + unit) \<times> state" where
  "send response s =
     (case dumps response s of
        (Inr txtResponse, s1) \<Rightarrow> (Inr (), conn_write txtResponse s1)
      | (Inl e, s1) \<Rightarrow>
          (Inl (Exc ''NameError'' ''name 'item' is not defined''),
           log_call ''error''
             ''An unexpected error ocurred when trying to create the message: %r'' s1))"

text \<open>
  The dictionaries \<^verbatim>\<open>{'result': response, 'error': None, 'id': item['id']}\<close> and
  \<^verbatim>\<open>{'result': None, 'error': err, 'id': item['id']}\<close>.
\<close>

definition response_frame :: "int \<Rightarrow> pyval \<Rightarrow> frame" where
  "response_frame i response =
     empty_frame\<lparr>f_result := Some response, f_error := Some PNone, f_id := Some i\<rparr>"

definition error_frame :: "int \<Rightarrow> pyval \<Rightarrow> frame" where
  "error_frame i err =
     empty_frame\<lparr>f_result := Some PNone, f_error := Some err, f_id := Some i\<rparr>"

text \<open>
  \<^verbatim>\<open>_send_response\<close> and \<^verbatim>\<open>_send_error\<close> send nothing when \<^verbatim>\<open>item.get('id')\<close> is
  \<^verbatim>\<open>None\<close>.
\<close>

definition send_response :: "frame \<Rightarrow> pyval \<Rightarrow> state \<Rightarrow> (exc + unit) \<times> state" where
  "send_response item response s =
     (case f_id item of
        None \<Rightarrow> (Inr (), s)
      | Some i \<Rightarrow> send (response_frame i response) s)"

definition send_error :: "frame \<Rightarrow> pyval \<Rightarrow> state \<Rightarrow> (exc + unit) \<times> state" where
  "send_error item err s =
     (case f_id item of
        None \<Rightarrow> (Inr (), s)
      | Some i \<Rightarrow> send (error_frame i err) s)"

subsection \<open>The dispatcher\<close>

text \<open>
  \<^verbatim>\<open>_format_exception\<close>: two error lines and a debug line for the log, and the string
  \<^verbatim>\<open>'%s: %s' % (etype.__name__, evalue)\<close>. The object, the method name and the arguments
  only fill the log message and are left out.
\<close>

definition format_exception :: "exc \<Rightarrow> state \<Rightarrow> string \<times> state" where
  "format_exception e s =
     (etype e @ '': '' @ evalue e,
      log_call ''error'' ''Unhandled error: %s: %s''
        (log_call ''debug'' ''%s''
          (log_call ''error'' ''(%s) In Handler method %s.%s(%s) '' s)))"

text \<open>
  \<^verbatim>\<open>_dispatch_delete\<close>. An object without a \<^verbatim>\<open>_shutdown\<close> attribute raises
  \<^verbatim>\<open>AttributeError\<close> inside the \<^verbatim>\<open>try\<close>, which is caught like a raise of the hook. A name
  that is not in the table raises \<^verbatim>\<open>KeyError\<close> again inside the handler of the exception.
\<close>

definition dispatch_delete :: "string \<Rightarrow> state \<Rightarrow> (exc + unit) \<times> state" where
  "dispatch_delete objectname s =
     (case objects s objectname of
        None \<Rightarrow> (Inl (Exc ''KeyError'' (quote objectname)), s)
      | Some r \<Rightarrow>
          (let s1 = (case shutdown_hook (heap s r) of
                       None \<Rightarrow>
                         log_call ''debug'' ''%s''
                           (log_call ''error'' ''Error when shutting down the object %s:'' s)
                     | Some (Inl e) \<Rightarrow>
                         log_call ''debug'' ''%s''
                           (log_call ''error'' ''Error when shutting down the object %s:''
                             (s\<lparr>shutdown_calls := shutdown_calls s @ [r]\<rparr>))
                     | Some (Inr u) \<Rightarrow> s\<lparr>shutdown_calls := shutdown_calls s @ [r]\<rparr>)
           in (Inr (), s1\<lparr>objects := (objects s1)(objectname := None)\<rparr>)))"

text \<open>
  \<^verbatim>\<open>_extract_params\<close>. The keys of a JSON object are strings already, so \<^verbatim>\<open>str(k)\<close>
  is \<open>k\<close>.
\<close>

definition str_keys :: "pydict \<Rightarrow> pydict" where
  "str_keys req_kwargs =
     (if req_kwargs \<noteq> []
      then dict_of_pairs (map (\<lambda>k. (k, the (map_of req_kwargs k))) (map fst req_kwargs))
      else req_kwargs)"

definition extract_params :: "frame \<Rightarrow> string option \<times> pyval list \<times> pydict" where
  "extract_params request =
     (let req_method = f_method request
      in case f_params request of
           Some (Keyword d) \<Rightarrow> (req_method, [], str_keys d)
         | Some (Positional a) \<Rightarrow>
             (req_method, a,
              str_keys (case f_kwparams request of None \<Rightarrow> [] | Some d \<Rightarrow> d))
         | None \<Rightarrow>
             (req_method, [],
              str_keys (case f_kwparams request of None \<Rightarrow> [] | Some d \<Rightarrow> d)))"

text \<open>
  \<^verbatim>\<open>_find_object\<close> returns the target object, or \<^verbatim>\<open>None\<close> after a deletion. The name it
  splits off is local to it: the caller keeps the whole method name.
\<close>

definition find_object :: "string \<Rightarrow> state \<Rightarrow> (exc + nat option) \<times> state" where
  "find_object req_method s =
     (if CHR ''.'' \<in> set req_method
      then (case take 2 (split_str (CHR ''.'') req_method) of
              [objectname, m] \<Rightarrow>
                (case objects s objectname of
                   None \<Rightarrow> (Inl (Exc ''ValueError'' ''Invalid object identifier''), s)
                 | Some r \<Rightarrow>
                     (if m = ''__delete__''
                      then bind (dispatch_delete objectname s) (\<lambda>u s'. (Inr None, s'))
                      else (Inr (Some r), s)))
            | _ \<Rightarrow> (Inl (Exc ''ValueError'' ''not enough values to unpack''), s))
      else (case handler s of
              None \<Rightarrow>
                (Inl (Exc ''AttributeError''
                       (quote ''Connection'' @ '' object has no attribute '' @
                        quote ''handler'')), s)
            | Some h \<Rightarrow> (Inr (Some h), s)))"

text \<open>
  \<^verbatim>\<open>_find_method\<close> returns what \<^verbatim>\<open>get_method\<close> returned, or the text of the error.
\<close>

definition find_method :: "nat \<Rightarrow> string \<Rightarrow> state \<Rightarrow> fn \<times> state" where
  "find_method req_object req_method s =
     (case get_method (heap s req_object) of
        None \<Rightarrow>
          (let (err, s') = format_exception
                 (Exc ''AttributeError''
                    (quote (class_name (heap s req_object)) @
                     '' object has no attribute '' @ quote ''get_method'')) s
           in (NotCallable (PStr err), s'))
      | Some gm \<Rightarrow>
          (case gm req_method of
             Inr req_function \<Rightarrow> (req_function, s)
           | Inl (ServerError m) \<Rightarrow> (NotCallable (PStr m), s)
           | Inl (Exc t m) \<Rightarrow>
               (let (err, s') = format_exception (Exc t m) s
                in (NotCallable (PStr err), s'))))"

text \<open>The truth value of a Python value, as \<^verbatim>\<open>elif fn:\<close> tests it.\<close>

fun truthy :: "pyval \<Rightarrow> bool" where
  "truthy PNone = False"
| "truthy (PBool b) = b"
| "truthy (PInt i) = (i \<noteq> 0)"
| "truthy (PFloat m e) = (m \<noteq> 0)"
| "truthy (PStr t) = (t \<noteq> [])"
| "truthy (PList xs) = (xs \<noteq> [])"
| "truthy (PDict d) = (d \<noteq> [])"
| "truthy (PObj obj) = True"

text \<open>
  The loop \<^verbatim>\<open>for response in fn(*args, **kw): self._send_response(item, response)\<close> over
  the values a generator yields: a raise of \<^verbatim>\<open>_send_response\<close> leaves the loop.
\<close>

fun send_responses :: "frame \<Rightarrow> pyval list \<Rightarrow> state \<Rightarrow> (exc + unit) \<times> state" where
  "send_responses item [] s = (Inr (), s)"
| "send_responses item (response # rest) s =
     (case send_response item response s of
        (Inl e, s') \<Rightarrow> (Inl e, s')
      | (Inr u, s') \<Rightarrow> send_responses item rest s')"

text \<open>The body of the \<^verbatim>\<open>try\<close> statement of \<^verbatim>\<open>dispatch_item_single\<close>.\<close>

definition invoke :: "frame \<Rightarrow> fn \<Rightarrow> pyval list \<Rightarrow> pydict \<Rightarrow> state \<Rightarrow> (exc + unit) \<times> state" where
  "invoke item f args kw s =
     (case f of
        GeneratorFunction g \<Rightarrow>
          (case send_responses item (fst (g args kw)) s of
             (Inl e, s') \<Rightarrow> (Inl e, s')
           | (Inr u, s') \<Rightarrow>
               (case snd (g args kw) of None \<Rightarrow> (Inr (), s') | Some e \<Rightarrow> (Inl e, s')))
      | Callable c \<Rightarrow>
          (case c args kw of
             Inl e \<Rightarrow> (Inl e, s)
           | Inr response \<Rightarrow> send_response item response s)
      | NotCallable v \<Rightarrow> (if truthy v then send_error item v s else (Inr (), s)))"

text \<open>
  Modelled from the spec: \<^verbatim>\<open>Request.setresponse\<close> of \<^verbatim>\<open>request.py\<close>, which is not among
  the sources. The spec has it store the response in the handle and unregister the handle
  from the pending map when \<^verbatim>\<open>auto_close\<close> is set.
\<close>

definition setresponse :: "request \<Rightarrow> frame \<Rightarrow> state \<Rightarrow> state" where
  "setresponse rq item s =
     (let s1 = s\<lparr>delivered := delivered s @ [(request_id rq, item)]\<rparr>
      in if auto_close rq then s1\<lparr>requests := (requests s1)(request_id rq := None)\<rparr> else s1)"

text \<open>
  \<^verbatim>\<open>dispatch_item_single\<close> returns \<^verbatim>\<open>True\<close>, or \<^verbatim>\<open>None\<close> when \<^verbatim>\<open>_find_object\<close> returned
  no object. The calls of \<^verbatim>\<open>_extract_params\<close> and \<^verbatim>\<open>_find_object\<close> stand before the
  \<^verbatim>\<open>try\<close> statement, so what they raise leaves the function.
\<close>

definition dispatch_item_single :: "frame \<Rightarrow> state \<Rightarrow> (exc + bool option) \<times> state" where
  "dispatch_item_single item s =
     (case f_method item of
        Some name \<Rightarrow>
          (let (req_method, args, kw) = extract_params item
           in case find_object name s of
                (Inl e, s1) \<Rightarrow> (Inl e, s1)
              | (Inr None, s1) \<Rightarrow> (Inr None, s1)
              | (Inr (Some obj), s1) \<Rightarrow>
                  (let (f, s2) = find_method obj name s1
                   in case invoke item f args kw s2 of
                        (Inr u, s3) \<Rightarrow> (Inr (Some True), s3)
                      | (Inl (ServerError m), s3) \<Rightarrow>
                          bind (send_error item (PStr m) s3) (\<lambda>u s4. (Inr (Some True), s4))
                      | (Inl (Exc t m), s3) \<Rightarrow>
                          (let (err, s4) = format_exception (Exc t m) s3
                           in bind (send_error item (PStr err) s4)
                                (\<lambda>u s5. (Inr (Some True), s5)))))
      | None \<Rightarrow>
          (case f_result item of
             Some r \<Rightarrow>
               (case (case f_id item of None \<Rightarrow> None | Some i \<Rightarrow> requests s i) of
                  None \<Rightarrow> (Inl (Exc ''AssertionError'' []), s)
                | Some rq \<Rightarrow> (Inr (Some True), setresponse rq item s))
           | None \<Rightarrow>
               bind (send_error item (PStr ''Unknown format'') s)
                 (\<lambda>u s1. (Inr (Some True), s1))))"

text \<open>
  \<^verbatim>\<open>dispatch_item_threaded\<close>: in threaded mode the item goes to a new thread, which is
  recorded and not run here.
\<close>

definition dispatch_item_threaded :: "frame \<Rightarrow> state \<Rightarrow> (exc + bool option) \<times> state" where
  "dispatch_item_threaded item s =
     (if threaded s then (Inr (Some True), s\<lparr>started_threads := started_threads s @ [item]\<rparr>)
      else dispatch_item_single item s)"

text \<open>
  \<^verbatim>\<open>read_and_dispatch\<close> from the point where a line has been read and decoded: the
  decoded value is a list of frames, one frame, or something else.
\<close>

datatype decoded =
    Batch "frame list"
  | Single frame
  | Unknown

fun dispatch_each ::
  "(frame \<Rightarrow> state \<Rightarrow> (exc + bool option) \<times> state) \<Rightarrow> frame list \<Rightarrow> state
     \<Rightarrow> (exc + bool option) \<times> state" where
  "dispatch_each dispatch_item [] s = (Inr None, s)"
| "dispatch_each dispatch_item (i # rest) s =
     (case dispatch_item i s of
        (Inl e, s') \<Rightarrow> (Inl e, s')
      | (Inr u, s') \<Rightarrow> dispatch_each dispatch_item rest s')"

definition read_and_dispatch :: "bool \<Rightarrow> decoded \<Rightarrow> state \<Rightarrow> bool \<times> state" where
  "read_and_dispatch thread item s =
     (let dispatch_item = (if thread then dispatch_item_threaded else dispatch_item_single)
      in case item of
           Unknown \<Rightarrow>
             (False, log_call ''debug'' ''Received message with unknown format type: %s'' s)
         | Batch items \<Rightarrow>
             (case dispatch_each dispatch_item items s of
                (Inl e, s') \<Rightarrow> (False, log_call ''debug'' ''%s'' s')
              | (Inr u, s') \<Rightarrow> (True, s'))
         | Single i \<Rightarrow>
             (case (if f_result i \<noteq> None then dispatch_item_single i s
                    else dispatch_item i s) of
                (Inl e, s') \<Rightarrow> (False, log_call ''debug'' ''%s'' s')
              | (Inr u, s') \<Rightarrow> (True, s')))"

subsection \<open>Outgoing calls\<close>

text \<open>
  The four delivery modes, \<^verbatim>\<open>sync_type\<close> 0 to 3 of the docstring of \<^verbatim>\<open>proxy\<close>.
\<close>

datatype sync_type =
    Sync_call
  | Sync_method
  | Sync_notify
  | Sync_pipe

fun sync_code :: "sync_type \<Rightarrow> nat" where
  "sync_code Sync_call = 0"
| "sync_code Sync_method = 1"
| "sync_code Sync_notify = 2"
| "sync_code Sync_pipe = 3"

text \<open>
  Modelled from the spec: the constructor of the Request handle (\<^verbatim>\<open>request.py\<close> is not
  among the sources). The spec has the handle created when a call that is not a notification
  is emitted, and registered in the pending requests; the handle closes itself on the first
  response unless the caller says otherwise.
\<close>

definition Request :: "frame \<Rightarrow> state \<Rightarrow> (exc + request) \<times> state" where
  "Request data s =
     (case f_id data of
        None \<Rightarrow> (Inl (Exc ''KeyError'' (quote ''id'')), s)
      | Some i \<Rightarrow>
          (let rq = \<lparr>request_id = i, auto_close = True\<rparr>
           in bind (addrequest rq s) (\<lambda>u s1.
              bind (dumps data s1) (\<lambda>txt s2. (Inr rq, conn_write txt s2)))))"

text \<open>
  The dictionary \<^verbatim>\<open>data\<close> that \<^verbatim>\<open>proxy\<close> builds before it sends anything: the method
  name, a fresh id unless the call is a notification, and the arguments.
\<close>

definition proxy_data ::
  "sync_type \<Rightarrow> string \<Rightarrow> pyval list \<Rightarrow> pydict \<Rightarrow> state \<Rightarrow> frame \<times> state" where
  "proxy_data st name args kwargs s =
     (let data0 = empty_frame\<lparr>f_method := Some name\<rparr>;
          (data1, s1) =
            (if sync_code st \<in> {0, 1, 3}
             then (let (i, s') = get_id s in (data0\<lparr>f_id := Some (int i)\<rparr>, s'))
             else (data0, s));
          data2 = (if length args > 0 then data1\<lparr>f_params := Some (Positional args)\<rparr>
                   else data1);
          data3 = (if length kwargs > 0
                   then (if length args = 0 then data2\<lparr>f_params := Some (Keyword kwargs)\<rparr>
                         else data2\<lparr>f_kwparams := Some kwargs\<rparr>)
                   else data2)
      in (data3, s1))"

text \<open>
  \<^verbatim>\<open>proxy\<close> returns \<^verbatim>\<open>None\<close> for a notification and the handle otherwise. For a
  synchronous call the Python goes on to wait for the response (\<^verbatim>\<open>req.value\<close>); the wait is
  not modelled.
\<close>

definition proxy ::
  "sync_type \<Rightarrow> string \<Rightarrow> pyval list \<Rightarrow> pydict \<Rightarrow> state \<Rightarrow> (exc + request option) \<times> state" where
  "proxy st name args kwargs s =
     (let (data, s1) = proxy_data st name args kwargs s
      in if sync_code st = 2
         then bind (dumps data s1) (\<lambda>txt s2. (Inr None, conn_write txt s2))
         else bind (Request data s1) (\<lambda>req s2.
                if sync_code st = 3
                then (Inr (Some (req\<lparr>auto_close := False\<rparr>)),
                      s2\<lparr>requests := (requests s2)(request_id req \<mapsto> req\<lparr>auto_close := False\<rparr>)\<rparr>)
                else (Inr (Some req), s2)))"

text \<open>
  A \<^verbatim>\<open>Proxy\<close> of this connection: the object name it is bound to, if any, and its
  delivery mode.
\<close>

record proxy_object =
  p_obj :: "string option"
  p_sync_type :: sync_type

text \<open>
  The function that \<^verbatim>\<open>Proxy.__getattr__\<close> returns, with the attributes it sets on it.
\<close>

record proxy_fn =
  fn_name :: string
  fn_sync_type :: sync_type

definition Proxy_getattr :: "proxy_object \<Rightarrow> string \<Rightarrow> proxy_fn" where
  "Proxy_getattr p name =
     \<lparr>fn_name = (case p_obj p of
                    None \<Rightarrow> name
                  | Some ob \<Rightarrow> if ob \<noteq> [] then ob @ ''.'' @ name else name),
      fn_sync_type = p_sync_type p\<rparr>"

text \<open>
  The names that the body of class \<^verbatim>\<open>Connection\<close> and its \<^verbatim>\<open>__init__\<close> define, and
  the lookup of an attribute of a connection by name. \<^verbatim>\<open>handler\<close> is defined only when a
  handler factory was given.
\<close>

definition Connection_attributes :: "string list" where
  "Connection_attributes =
     [''_maxtimeout'', ''_SOCKET_COMM_ERRORS'', ''call'', ''method'', ''notify'', ''pipe'',
      ''setmaxtimeout'', ''getmaxtimeout'', ''__init__'', ''socket'', ''get_id'',
      ''load_object'', ''addrequest'', ''delrequest'', ''dump_object'',
      ''_dump_functionreference'', ''_dump_objectreference'', ''_dump_remoteobject'',
      ''_format_exception'', ''_dispatch_delete'', ''_extract_params'', ''_find_object'',
      ''_find_method'', ''dispatch_until_empty'', ''read_and_dispatch'',
      ''dispatch_item_threaded'', ''_send'', ''_send_response'', ''_send_error'',
      ''dispatch_item_single'', ''proxy'', ''close'', ''write_line'', ''read_line'',
      ''settimeout'', ''write_thread'', ''write'', ''write_now'', ''read'', ''_readn'',
      ''serve'', ''_debug_socket'', ''_debug_dispatch'', ''_buffer'', ''_sck'', ''_address'',
      ''_handler'', ''connection_status'', ''_id'', ''_requests'', ''_objects'', ''scklock'',
      ''_wbuffer'', ''write_lock'', ''read_lock'', ''getid_lock'', ''reading_event'',
      ''threaded'', ''write_thread_queue'', ''write_thread_semaphore'']"

definition Connection_getattr :: "string \<Rightarrow> state \<Rightarrow> exc + string" where
  "Connection_getattr name s =
     (if name \<in> set Connection_attributes \<or> (name = ''handler'' \<and> handler s \<noteq> None)
      then Inr name
      else Inl (Exc ''AttributeError''
                  (quote ''Connection'' @ '' object has no attribute '' @ quote name)))"

text \<open>
  A call of the function of a proxy: \<^verbatim>\<open>self._conn._proxy(self.sync_type, name, args,
  kwargs)\<close>. The attribute is looked up first. Of the attributes of a connection only
  \<^verbatim>\<open>proxy\<close> is modelled as a callable of these four arguments; a call of any other is given
  as a \<^verbatim>\<open>TypeError\<close>.
\<close>

definition call_proxy_fn ::
  "proxy_fn \<Rightarrow> pyval list \<Rightarrow> pydict \<Rightarrow> state \<Rightarrow> (exc + request option) \<times> state" where
  "call_proxy_fn f args kwargs s =
     (case Connection_getattr ''_proxy'' s of
        Inl e \<Rightarrow> (Inl e, s)
      | Inr a \<Rightarrow>
          (if a = ''proxy'' then proxy (fn_sync_type f) (fn_name f) args kwargs s
           else (Inl (Exc ''TypeError'' []), s)))"

subsection \<open>A connection as its constructor leaves it, and example objects\<close>

text \<open>
  \<^verbatim>\<open>Connection.__init__\<close>: the counter at zero, no pending request, no hosted object,
  nothing queued. The identity of the connection, its handler, the process-wide
  \<^verbatim>\<open>threaded\<close> option and the heap are given.
\<close>

definition Connection_init :: "nat \<Rightarrow> nat option \<Rightarrow> bool \<Rightarrow> (nat \<Rightarrow> pyinstance) \<Rightarrow> state" where
  "Connection_init ident h thr hp =
     \<lparr>self = ident, handler = h, id_counter = 0, requests = Map.empty, objects = Map.empty,
      threaded = thr, write_thread_queue = [], started_threads = [], heap = hp, logged = [],
      delivered = [], shutdown_calls = []\<rparr>"

text \<open>
  Objects for the examples: an instance of \<^verbatim>\<open>object\<close>; a handler with the methods
  \<^verbatim>\<open>echo\<close> (returns its argument), \<^verbatim>\<open>boom\<close> (raises \<^verbatim>\<open>RuntimeError("x")\<close>), \<^verbatim>\<open>count\<close>
  (yields 1, 2, 3), \<^verbatim>\<open>leak\<close> (yields an instance of \<^verbatim>\<open>object\<close>, then 1) and \<^verbatim>\<open>half\<close>
  (yields 1, then raises \<^verbatim>\<open>RuntimeError("x")\<close>); and an object of class \<^verbatim>\<open>Foo\<close> with the
  same methods whose \<^verbatim>\<open>_shutdown\<close> raises.
\<close>

definition plain_object :: pyinstance where
  "plain_object =
     \<lparr>class_name = ''object'', obj_repr = ''<object object>'', get_method = None,
      shutdown_hook = None,
      to_float = Inl (Exc ''TypeError'' ''float() argument must be a string or a number''),
      remoteobjects = None\<rparr>"

definition example_get_method :: "string \<Rightarrow> exc + fn" where
  "example_get_method name =
     (if name = ''echo''
      then Inr (Callable (\<lambda>args kw.
             case args of [x] \<Rightarrow> Inr x
                        | _ \<Rightarrow> Inl (Exc ''TypeError'' ''echo() takes exactly 1 argument'')))
      else if name = ''boom'' then Inr (Callable (\<lambda>args kw. Inl (Exc ''RuntimeError'' ''x'')))
      else if name = ''count''
      then Inr (GeneratorFunction (\<lambda>args kw. ([PInt 1, PInt 2, PInt 3], None)))
      else if name = ''leak''
      then Inr (GeneratorFunction (\<lambda>args kw. ([PObj (Instance 2), PInt 1], None)))
      else if name = ''half''
      then Inr (GeneratorFunction (\<lambda>args kw. ([PInt 1], Some (Exc ''RuntimeError'' ''x''))))
      else Inl (ServerError (''Unknown method '' @ quote name)))"

definition example_handler :: pyinstance where
  "example_handler =
     plain_object\<lparr>class_name := ''Handler'', obj_repr := ''<Handler object>'',
       get_method := Some example_get_method, shutdown_hook := Some (Inr ())\<rparr>"

definition example_foo :: pyinstance where
  "example_foo =
     plain_object\<lparr>class_name := ''Foo'', obj_repr := ''<Foo object>'',
       get_method := Some example_get_method,
       shutdown_hook := Some (Inl (Exc ''RuntimeError'' ''busy''))\<rparr>"

definition example_heap :: "nat \<Rightarrow> pyinstance" where
  "example_heap r = (if r = 0 then example_handler else if r = 1 then example_foo
     else plain_object)"

definition example_conn :: state where
  "example_conn = Connection_init 10 (Some 0) False example_heap"

subsection \<open>The part of the state that serialising does not touch\<close>

text \<open>
  Everything in the state but the id counter, the table of hosted objects and the heap.
\<close>

definition fixed_part ::
  "state \<Rightarrow> nat \<times> nat option \<times> (int \<rightharpoonup> request) \<times> bool \<times> frame list \<times> frame list \<times>
     (string \<times> string) list \<times> (int \<times> frame) list \<times> nat list" where
  "fixed_part s =
     (self s, handler s, requests s, threaded s, write_thread_queue s, started_threads s,
      logged s, delivered s, shutdown_calls s)"

text \<open>The example connection after it has serialised the object of class \<^verbatim>\<open>Foo\<close>.\<close>

definition example_hosting :: state where
  "example_hosting = snd (dump_remoteobject 1 example_conn)"


text \<open>The example connection while it waits for the response to its request 3.\<close>

definition example_pending :: state where
  "example_pending =
     example_conn\<lparr>requests := [3 \<mapsto> \<lparr>request_id = 3, auto_close = True\<rparr>]\<rparr>"

section \<open>Dictionaries\<close>


lemma dict_set_fresh: "k \<notin> fst ` set d \<Longrightarrow> dict_set d k v = d @ [(k, v)]"
  by (induction d) auto

lemma foldl_dict_set:
  "distinct (map fst (acc @ ps)) \<Longrightarrow>
     foldl (\<lambda>d (k, v). dict_set d k v) acc ps = acc @ ps"
proof (induction ps arbitrary: acc)
  case Nil
  then show ?case by simp
next
  case (Cons p ps)
  obtain k v where p: "p = (k, v)" by (cases p)
  from Cons.prems p have fresh: "k \<notin> fst ` set acc" by auto
  from Cons.prems p have "distinct (map fst ((acc @ [(k, v)]) @ ps))" by auto
  from Cons.IH[OF this] show ?case using p fresh by (simp add: dict_set_fresh)
qed

lemma dict_of_pairs_distinct: "distinct (map fst ps) \<Longrightarrow> dict_of_pairs ps = ps"
  using foldl_dict_set[of "[]" ps] by (simp add: dict_of_pairs_def)

lemma rebuild_items:
  "distinct (map fst d) \<Longrightarrow> map (\<lambda>k. (k, the (map_of d k))) (map fst d) = d"
proof (induction d)
  case Nil
  then show ?case by simp
next
  case (Cons p d)
  obtain k v where p: "p = (k, v)" by (cases p)
  from Cons.prems p have k: "k \<notin> fst ` set d" and dd: "distinct (map fst d)" by auto
  have "map (\<lambda>k'. (k', the (map_of (p # d) k'))) (map fst d)
        = map (\<lambda>k'. (k', the (map_of d k'))) (map fst d)"
    using k p by (intro map_cong) auto
  with Cons.IH[OF dd] show ?case using p by simp
qed

lemma str_keys_dict:
  assumes "distinct (map fst d)"
  shows "str_keys d = d"
  unfolding str_keys_def rebuild_items[OF assms] dict_of_pairs_distinct[OF assms]
  by simp

section \<open>What serialising leaves alone\<close>

lemma fixed_part_log_call:
  "fixed_part s' = fixed_part s \<Longrightarrow>
     write_thread_queue s' = write_thread_queue s \<and> requests s' = requests s
     \<and> delivered s' = delivered s \<and> self s' = self s \<and> handler s' = handler s
     \<and> threaded s' = threaded s \<and> started_threads s' = started_threads s
     \<and> logged s' = logged s \<and> shutdown_calls s' = shutdown_calls s"
  by (simp add: fixed_part_def)

lemma fixed_part_dump_remoteobject:
  "fixed_part (snd (dump_remoteobject r s)) = fixed_part s"
  by (simp add: dump_remoteobject_def fixed_part_def Let_def get_id_def
      split: option.splits prod.splits)

lemma fixed_part_dump_remoteobject_eq:
  "dump_remoteobject r s = (v, s') \<Longrightarrow> fixed_part s' = fixed_part s"
  using fixed_part_dump_remoteobject[of r s] by simp

lemma fixed_part_dump_object: "fixed_part (snd (dump_object obj s)) = fixed_part s"
  by (cases obj)
     (auto simp: dump_object_def split: sum.splits prod.splits
        dest: fixed_part_dump_remoteobject_eq)

lemma fixed_part_encode:
  "fixed_part (snd (encode v s)) = fixed_part s"
  "fixed_part (snd (encode_list xs s)) = fixed_part s"
  "fixed_part (snd (encode_items d s)) = fixed_part s"
proof (induction v s and xs s and d s rule: encode_encode_list_encode_items.induct)
  case (8 obj s)
  then show ?case by (simp add: fixed_part_dump_object)
qed (auto split: prod.splits sum.splits)

lemma dump_remoteobject_queue:
  "dump_remoteobject r (s\<lparr>write_thread_queue := q\<rparr>)
     = (fst (dump_remoteobject r s), (snd (dump_remoteobject r s))\<lparr>write_thread_queue := q\<rparr>)"
  by (simp add: dump_remoteobject_def Let_def get_id_def split: option.splits prod.splits)

lemma dump_object_queue:
  "dump_object obj (s\<lparr>write_thread_queue := q\<rparr>)
     = (fst (dump_object obj s), (snd (dump_object obj s))\<lparr>write_thread_queue := q\<rparr>)"
  by (cases obj)
     (auto simp: dump_object_def dump_remoteobject_queue split: sum.splits prod.splits)

lemma encode_queue:
  "encode v (s\<lparr>write_thread_queue := q\<rparr>)
     = (fst (encode v s), (snd (encode v s))\<lparr>write_thread_queue := q\<rparr>)"
  "encode_list xs (s\<lparr>write_thread_queue := q\<rparr>)
     = (fst (encode_list xs s), (snd (encode_list xs s))\<lparr>write_thread_queue := q\<rparr>)"
  "encode_items d (s\<lparr>write_thread_queue := q\<rparr>)
     = (fst (encode_items d s), (snd (encode_items d s))\<lparr>write_thread_queue := q\<rparr>)"
proof (induction v s and xs s and d s rule: encode_encode_list_encode_items.induct)
  case (8 obj s)
  then show ?case by (simp add: dump_object_queue)
qed (auto split: prod.splits sum.splits)

section \<open>Sending\<close>

lemma queue_encode:
  "encode v s = (r, s') \<Longrightarrow> write_thread_queue s' = write_thread_queue s"
  "encode_list xs s = (rs, s') \<Longrightarrow> write_thread_queue s' = write_thread_queue s"
  using fixed_part_encode(1)[of v s] fixed_part_encode(2)[of xs s]
  by (simp_all add: fixed_part_def)

lemma dumps_response_frame:
  "dumps (response_frame i y) s =
     (case encode y s of
        (Inl e, s') \<Rightarrow> (Inl e, s')
      | (Inr v, s') \<Rightarrow> (Inr (response_frame i v), s'))"
  by (simp add: dumps_def response_frame_def empty_frame_def encode_option_def bind_def
      split: prod.splits sum.splits)

lemma send_response_ok:
  assumes "f_id item = Some i" and "encode y s = (Inr v, s')"
  shows "send_response item y s
           = (Inr (), s'\<lparr>write_thread_queue := write_thread_queue s @ [response_frame i v]\<rparr>)"
  using assms queue_encode(1)[OF assms(2)]
  by (simp add: send_response_def send_def dumps_response_frame conn_write_def)

lemma encode_list_length:
  "encode_list ys s = (Inr vs, s') \<Longrightarrow> length vs = length ys"
  by (induction ys arbitrary: s vs s') (auto split: prod.splits sum.splits)

lemma send_responses_ok:
  assumes "f_id item = Some i"
  shows "encode_list ys s = (Inr vs, s') \<Longrightarrow>
     send_responses item ys s
       = (Inr (), s'\<lparr>write_thread_queue := write_thread_queue s @ map (response_frame i) vs\<rparr>)"
proof (induction ys arbitrary: s vs s')
  case Nil
  then show ?case by simp
next
  case (Cons y ys)
  from Cons.prems obtain v s1 vs' where
    y: "encode y s = (Inr v, s1)" and
    rest: "encode_list ys s1 = (Inr vs', s')" and
    vs: "vs = v # vs'"
    by (auto split: prod.splits sum.splits)
  let ?q = "write_thread_queue s @ [response_frame i v]"
  have step: "send_response item y s = (Inr (), s1\<lparr>write_thread_queue := ?q\<rparr>)"
    using send_response_ok[OF assms y] .
  have "encode_list ys (s1\<lparr>write_thread_queue := ?q\<rparr>)
          = (Inr vs', s'\<lparr>write_thread_queue := ?q\<rparr>)"
    using rest by (simp add: encode_queue(2))
  from Cons.IH[OF this] show ?case using step vs by simp
qed

section \<open>Notifications\<close>

lemma log_call_fields [simp]:
  "write_thread_queue (log_call l f s) = write_thread_queue s"
  "requests (log_call l f s) = requests s"
  "delivered (log_call l f s) = delivered s"
  "objects (log_call l f s) = objects s"
  "heap (log_call l f s) = heap s"
  "handler (log_call l f s) = handler s"
  "shutdown_calls (log_call l f s) = shutdown_calls s"
  by (simp_all add: log_call_def)

lemma queue_format_exception [simp]:
  "write_thread_queue (snd (format_exception e s)) = write_thread_queue s"
  by (simp add: format_exception_def)

lemma queue_dispatch_delete [simp]:
  "write_thread_queue (snd (dispatch_delete n s)) = write_thread_queue s"
  by (simp add: dispatch_delete_def Let_def split: option.splits sum.splits)

lemma queue_find_object [simp]:
  "write_thread_queue (snd (find_object m s)) = write_thread_queue s"
proof -
  have del: "write_thread_queue
      (snd (bind (dispatch_delete n s) (\<lambda>u s'. (Inr None, s')))) = write_thread_queue s" for n
  proof -
    obtain r s1 where d: "dispatch_delete n s = (r, s1)" by (cases "dispatch_delete n s")
    with queue_dispatch_delete[of n s] have "write_thread_queue s1 = write_thread_queue s"
      by simp
    with d show ?thesis by (cases r) (simp_all add: bind_def)
  qed
  show ?thesis
    by (simp add: find_object_def del split: list.splits option.splits)
qed

lemma queue_find_method [simp]:
  "write_thread_queue (snd (find_method obj m s)) = write_thread_queue s"
proof -
  have fe: "\<And>e. (case format_exception e s of (err, s') \<Rightarrow> (NotCallable (PStr err), s'))
      = (NotCallable (PStr (fst (format_exception e s))), snd (format_exception e s))"
    by (simp add: split_beta)
  show ?thesis
    by (simp add: find_method_def fe split: option.splits sum.splits exc.splits)
qed

lemma send_response_notification:
  "f_id item = None \<Longrightarrow> send_response item v s = (Inr (), s)"
  by (simp add: send_response_def)

lemma send_error_notification:
  "f_id item = None \<Longrightarrow> send_error item v s = (Inr (), s)"
  by (simp add: send_error_def)

lemma send_responses_notification:
  "f_id item = None \<Longrightarrow> send_responses item ys s = (Inr (), s)"
  by (induction ys) (simp_all add: send_response_notification)

lemma invoke_notification:
  "f_id item = None \<Longrightarrow> snd (invoke item f args kw s) = s"
  by (cases f)
     (simp_all add: invoke_def send_responses_notification send_response_notification
        send_error_notification split: option.splits sum.splits)

lemma dispatch_request_notification:
  assumes nid: "f_id item = None" and m: "f_method item = Some name"
  shows "write_thread_queue (snd (dispatch_item_single item s)) = write_thread_queue s
     \<and> (\<forall>obj s1. find_object name s = (Inr (Some obj), s1) \<longrightarrow>
            fst (dispatch_item_single item s) = Inr (Some True))"
proof -
  obtain rm args kw where ep: "extract_params item = (rm, args, kw)"
    by (cases "extract_params item")
  obtain r s1 where fo: "find_object name s = (r, s1)" by (cases "find_object name s")
  have q1: "write_thread_queue s1 = write_thread_queue s"
    using queue_find_object[of name s] fo by simp
  show ?thesis
  proof (cases r)
    case (Inl e)
    then show ?thesis using m ep fo q1 by (simp add: dispatch_item_single_def)
  next
    case (Inr ob)
    show ?thesis
    proof (cases ob)
      case None
      then show ?thesis using Inr m ep fo q1 by (simp add: dispatch_item_single_def)
    next
      case (Some obj)
      obtain f s2 where fm: "find_method obj name s1 = (f, s2)"
        by (cases "find_method obj name s1")
      have q2: "write_thread_queue s2 = write_thread_queue s"
        using queue_find_method[of obj name s1] fm q1 by simp
      obtain ir s3 where inv: "invoke item f args kw s2 = (ir, s3)"
        by (cases "invoke item f args kw s2")
      have s3: "s3 = s2" using invoke_notification[OF nid, of f args kw s2] inv by simp
      show ?thesis
      proof (cases ir)
        case (Inr u)
        then show ?thesis using \<open>r = Inr ob\<close> Some m ep fo fm inv s3 q2
          by (simp add: dispatch_item_single_def)
      next
        case (Inl e)
        then show ?thesis using \<open>r = Inr ob\<close> Some m ep fo fm inv s3 q2
          by (cases e)
             (simp_all add: dispatch_item_single_def send_error_notification[OF nid]
                bind_def split_beta)
      qed
    qed
  qed
qed

lemma dispatch_other_notification:
  assumes nid: "f_id item = None" and m: "f_method item = None"
  shows "write_thread_queue (snd (dispatch_item_single item s)) = write_thread_queue s"
  using assms
  by (simp add: dispatch_item_single_def send_error_notification bind_def setresponse_def
      Let_def split: option.splits)

lemma dispatch_notification:
  assumes nid: "f_id item = None"
  shows "write_thread_queue (snd (dispatch_item_single item s)) = write_thread_queue s"
proof (cases "f_method item")
  case None
  then show ?thesis using dispatch_other_notification[OF nid] by simp
next
  case (Some name)
  then show ?thesis using dispatch_request_notification[OF nid] by simp
qed

lemma read_and_dispatch_notification:
  assumes nid: "f_id item = None"
  shows "write_thread_queue (snd (read_and_dispatch thread (Single item) s))
           = write_thread_queue s"
proof -
  obtain r s1 where d: "dispatch_item_single item s = (r, s1)"
    by (cases "dispatch_item_single item s")
  have q: "write_thread_queue s1 = write_thread_queue s"
    using dispatch_notification[OF nid, of s] d by simp
  show ?thesis using d q
    by (cases r) (simp_all add: read_and_dispatch_def dispatch_item_threaded_def)
qed

section \<open>Splitting method names\<close>

lemma split_str_not_Nil [simp]: "split_str sep t \<noteq> []"
  by (induction t) auto

lemma split_str_no_sep: "sep \<notin> set t \<Longrightarrow> split_str sep t = [t]"
  by (induction t) auto

lemma split_str_append:
  "sep \<notin> set a \<Longrightarrow> split_str sep (a @ sep # b) = a # split_str sep b"
  by (induction a) auto

lemma split_str_hd: "hd (split_str sep t) = takeWhile (\<lambda>c. c \<noteq> sep) t"
  by (induction t) auto

lemma split_str_first:
  "sep \<in> set t \<Longrightarrow>
     split_str sep t
       = takeWhile (\<lambda>c. c \<noteq> sep) t # split_str sep (tl (dropWhile (\<lambda>c. c \<noteq> sep) t))"
  by (induction t) auto

lemma take2_split_str:
  assumes "sep \<in> set t"
  shows "take 2 (split_str sep t)
           = [takeWhile (\<lambda>c. c \<noteq> sep) t,
              takeWhile (\<lambda>c. c \<noteq> sep) (tl (dropWhile (\<lambda>c. c \<noteq> sep) t))]"
proof -
  let ?rest = "tl (dropWhile (\<lambda>c. c \<noteq> sep) t)"
  obtain x xs where r: "split_str sep ?rest = x # xs"
    by (cases "split_str sep ?rest") auto
  then have "x = takeWhile (\<lambda>c. c \<noteq> sep) ?rest"
    using split_str_hd[of sep ?rest] by simp
  then show ?thesis using split_str_first[OF assms] r by (simp add: numeral_2_eq_2)
qed

lemma split_delete:
  "CHR ''.'' \<notin> set name \<Longrightarrow>
     take 2 (split_str (CHR ''.'') (name @ ''.__delete__'')) = [name, ''__delete__'']"
  by (simp add: split_str_append split_str_no_sep)

section \<open>What a dispatch leaves alone\<close>

lemma fixed_part_bind:
  assumes "fixed_part (snd r) = fixed_part s"
      and "\<And>a s'. fixed_part (snd (f a s')) = fixed_part s'"
  shows "fixed_part (snd (bind r f)) = fixed_part s"
proof (cases r)
  case (Pair x s1)
  then show ?thesis using assms by (cases x) (simp_all add: bind_def)
qed

lemma fixed_part_encode_option:
  assumes "\<And>v s'. fixed_part (snd (enc v s')) = fixed_part s'"
  shows "fixed_part (snd (encode_option enc x s)) = fixed_part s"
proof (cases x)
  case None
  then show ?thesis by (simp add: encode_option_def)
next
  case (Some v)
  then show ?thesis
    using fixed_part_bind[of "enc v s" s "\<lambda>v' s'. (Inr (Some v'), s')"] assms
    by (simp add: encode_option_def)
qed

lemma fixed_part_encode_params:
  "fixed_part (snd (encode_params p s)) = fixed_part s"
proof (cases p)
  case (Positional a)
  then show ?thesis
    using fixed_part_bind[of "encode_list a s" s "\<lambda>a' s'. (Inr (Positional a'), s')"]
    by (simp add: encode_params_def fixed_part_encode)
next
  case (Keyword d)
  then show ?thesis
    using fixed_part_bind[of "encode_items d s" s "\<lambda>d' s'. (Inr (Keyword d'), s')"]
    by (simp add: encode_params_def fixed_part_encode)
qed

lemma fixed_part_dumps: "fixed_part (snd (dumps fr s)) = fixed_part s"
  unfolding dumps_def
  by (intro fixed_part_bind fixed_part_encode_option fixed_part_encode_params
        fixed_part_encode) simp

lemma pending_send:
  "requests (snd (send fr s)) = requests s \<and> delivered (snd (send fr s)) = delivered s"
proof -
  obtain r s1 where d: "dumps fr s = (r, s1)" by (cases "dumps fr s")
  have "fixed_part s1 = fixed_part s" using fixed_part_dumps[of fr s] d by simp
  then have "requests s1 = requests s \<and> delivered s1 = delivered s"
    by (simp add: fixed_part_def)
  then show ?thesis using d by (cases r) (simp_all add: send_def conn_write_def)
qed

lemma pending_send_response:
  "requests (snd (send_response item v s)) = requests s
   \<and> delivered (snd (send_response item v s)) = delivered s"
  using pending_send by (simp add: send_response_def split: option.splits)

lemma pending_send_error:
  "requests (snd (send_error item v s)) = requests s
   \<and> delivered (snd (send_error item v s)) = delivered s"
  using pending_send by (simp add: send_error_def split: option.splits)

lemma pending_send_responses:
  "requests (snd (send_responses item ys s)) = requests s
   \<and> delivered (snd (send_responses item ys s)) = delivered s"
proof (induction ys arbitrary: s)
  case Nil
  then show ?case by simp
next
  case (Cons y ys)
  obtain r s1 where d: "send_response item y s = (r, s1)"
    by (cases "send_response item y s")
  have "requests s1 = requests s \<and> delivered s1 = delivered s"
    using pending_send_response[of item y s] d by simp
  then show ?case using d Cons.IH[of s1] by (cases r) simp_all
qed

lemma pending_invoke:
  "requests (snd (invoke item f args kw s)) = requests s
   \<and> delivered (snd (invoke item f args kw s)) = delivered s"
proof (cases f)
  case (GeneratorFunction g)
  obtain r s1 where d: "send_responses item (fst (g args kw)) s = (r, s1)"
    by (cases "send_responses item (fst (g args kw)) s")
  have "requests s1 = requests s \<and> delivered s1 = delivered s"
    using pending_send_responses[of item "fst (g args kw)" s] d by simp
  then show ?thesis using GeneratorFunction d
    by (cases r) (simp_all add: invoke_def split: option.splits)
next
  case (Callable c)
  then show ?thesis using pending_send_response
    by (simp add: invoke_def split: sum.splits)
next
  case (NotCallable v)
  then show ?thesis using pending_send_error by (simp add: invoke_def)
qed

lemma pending_find_object:
  "requests (snd (find_object m s)) = requests s
   \<and> delivered (snd (find_object m s)) = delivered s"
proof -
  have del: "requests (snd (bind (dispatch_delete n s) (\<lambda>u s'. (Inr None, s')))) = requests s
     \<and> delivered (snd (bind (dispatch_delete n s) (\<lambda>u s'. (Inr None, s')))) = delivered s" for n
    by (simp add: dispatch_delete_def bind_def Let_def split: option.splits sum.splits)
  show ?thesis
    by (simp add: find_object_def del split: list.splits option.splits)
qed

lemma pending_format_exception [simp]:
  "requests (snd (format_exception e s)) = requests s"
  "delivered (snd (format_exception e s)) = delivered s"
  by (simp_all add: format_exception_def)

lemma pending_find_method:
  "requests (snd (find_method obj m s)) = requests s
   \<and> delivered (snd (find_method obj m s)) = delivered s"
  by (simp add: find_method_def split_beta split: option.splits sum.splits exc.splits)

section \<open>A frame with both a method and a result\<close>

lemma pending_dispatch_request:
  assumes m: "f_method item = Some name"
  shows "requests (snd (dispatch_item_single item s)) = requests s
     \<and> delivered (snd (dispatch_item_single item s)) = delivered s"
proof -
  obtain rm args kw where ep: "extract_params item = (rm, args, kw)"
    by (cases "extract_params item")
  obtain r s1 where fo: "find_object name s = (r, s1)" by (cases "find_object name s")
  have p1: "requests s1 = requests s \<and> delivered s1 = delivered s"
    using pending_find_object[of name s] fo by simp
  show ?thesis
  proof (cases r)
    case (Inl e)
    then show ?thesis using m ep fo p1 by (simp add: dispatch_item_single_def)
  next
    case (Inr ob)
    show ?thesis
    proof (cases ob)
      case None
      then show ?thesis using Inr m ep fo p1 by (simp add: dispatch_item_single_def)
    next
      case (Some obj)
      obtain f s2 where fm: "find_method obj name s1 = (f, s2)"
        by (cases "find_method obj name s1")
      have p2: "requests s2 = requests s \<and> delivered s2 = delivered s"
        using pending_find_method[of obj name s1] fm p1 by simp
      obtain ir s3 where inv: "invoke item f args kw s2 = (ir, s3)"
        by (cases "invoke item f args kw s2")
      have p3: "requests s3 = requests s \<and> delivered s3 = delivered s"
        using pending_invoke[of item f args kw s2] inv p2 by simp
      have se: "requests (snd (bind (send_error item v t) (\<lambda>u s5. (Inr (Some True), s5))))
                  = requests t
                \<and> delivered (snd (bind (send_error item v t) (\<lambda>u s5. (Inr (Some True), s5))))
                  = delivered t" for v t
        using pending_send_error[of item v t]
        by (cases "send_error item v t"; cases "fst (send_error item v t)")
           (simp_all add: bind_def)
      show ?thesis
      proof (cases ir)
        case (Inr u)
        then show ?thesis using \<open>r = Inr ob\<close> Some m ep fo fm inv p3
          by (simp add: dispatch_item_single_def)
      next
        case (Inl e)
        then show ?thesis using \<open>r = Inr ob\<close> Some m ep fo fm inv p3 se
          by (cases e) (simp_all add: dispatch_item_single_def split_beta)
      qed
    qed
  qed
qed

lemma extract_params_result [simp]:
  "extract_params (item\<lparr>f_result := x\<rparr>) = extract_params item"
  by (simp add: extract_params_def split: option.splits params.splits)

lemma send_response_result [simp]:
  "send_response (item\<lparr>f_result := x\<rparr>) = send_response item"
  by (intro ext) (simp add: send_response_def)

lemma send_error_result [simp]:
  "send_error (item\<lparr>f_result := x\<rparr>) = send_error item"
  by (intro ext) (simp add: send_error_def)

lemma send_responses_result [simp]:
  "send_responses (item\<lparr>f_result := x\<rparr>) ys s = send_responses item ys s"
  by (induction ys arbitrary: s) (simp_all split: prod.splits sum.splits)

lemma invoke_result [simp]:
  "invoke (item\<lparr>f_result := x\<rparr>) f args kw s = invoke item f args kw s"
  by (simp add: invoke_def split: fn.splits sum.splits)

lemma dispatch_request_result:
  "f_method item = Some name \<Longrightarrow>
     dispatch_item_single (item\<lparr>f_result := x\<rparr>) s = dispatch_item_single item s"
  by (simp add: dispatch_item_single_def split_beta
      cong: prod.case_cong sum.case_cong option.case_cong exc.case_cong)

section \<open>Synthetic names of the examples\<close>

lemma lower_Foo: "lower ''Foo'' = ''foo''"
  by code_simp

lemma hex4_1: "hex4 (Suc 0) = ''0001''"
  by code_simp


section \<open>Calls through a proxy\<close>

text \<open>
  C1. The function that \<^verbatim>\<open>Proxy.__getattr__\<close> returns calls \<^verbatim>\<open>self._conn._proxy\<close>. A
  \<^verbatim>\<open>Connection\<close> has no attribute of that name (its method is \<^verbatim>\<open>proxy\<close>), so every
  call of the function, whatever the proxy, the method name and the arguments, raises
  \<^verbatim>\<open>AttributeError\<close> and leaves the connection as it was: no frame is queued and no id
  is taken.
\<close>

theorem C1_proxy_call_raises:
  "call_proxy_fn (Proxy_getattr p m) args kwargs s =
     (Inl (Exc ''AttributeError''
            (quote ''Connection'' @ '' object has no attribute '' @ quote ''_proxy'')), s)"
  by (simp add: call_proxy_fn_def Connection_getattr_def Connection_attributes_def)

section \<open>Responses to pending requests\<close>

lemma dispatch_response_unknown:
  assumes "f_method item = None" and "f_result item = Some r"
    and "(case f_id item of None \<Rightarrow> None | Some i \<Rightarrow> requests s i) = None"
  shows "dispatch_item_single item s = (Inl (Exc ''AssertionError'' []), s)"
  using assms by (simp add: dispatch_item_single_def)

text \<open>
  The frames of the examples: a response to request 7, which nobody waits for; the
  request of \<^verbatim>\<open>echo(5)\<close> with id 8; and a frame for the pending request 3 that has a
  \<^verbatim>\<open>method\<close> key besides its \<^verbatim>\<open>result\<close>.
\<close>

lemma example_unknown_response:
  "dispatch_item_single (empty_frame\<lparr>f_result := Some (PInt 1), f_id := Some 7\<rparr>) example_conn
     = (Inl (Exc ''AssertionError'' []), example_conn)"
  by (rule dispatch_response_unknown[where r = "PInt 1"])
     (simp_all add: empty_frame_def example_conn_def Connection_init_def)

lemma dispatch_each_append:
  "dispatch_each d (pre @ rest) s =
     (case dispatch_each d pre s of
        (Inl e, s') \<Rightarrow> (Inl e, s')
      | (Inr u, s') \<Rightarrow> dispatch_each d rest s')"
  by (induction pre arbitrary: s) (simp_all split: prod.splits sum.splits)

lemma dispatch_inline:
  "\<not> (thread \<and> threaded s) \<Longrightarrow>
     (if thread then dispatch_item_threaded else dispatch_item_single) item s
       = dispatch_item_single item s"
  by (simp add: dispatch_item_threaded_def)

lemma batch_cut_short:
  assumes "dispatch_each d pre s0 = (Inr u, s)" and "d item s = (Inl e, s')"
  shows "dispatch_each d (pre @ item # rest) s0 = (Inl e, s')"
  using assms by (simp add: dispatch_each_append)

text \<open>
  C2, as the spec has it, fails: a response whose id is not pending is not dropped
  silently. \<^verbatim>\<open>dispatch_item_single\<close> raises \<^verbatim>\<open>AssertionError\<close>; in a batch the frames
  after it are not dispatched any more, so the request that follows it in the batch gets no
  reply, and \<^verbatim>\<open>read_and_dispatch\<close> returns \<^verbatim>\<open>False\<close>.
\<close>

theorem C2_unknown_id_raises:
  "fst (dispatch_item_single
          (empty_frame\<lparr>f_result := Some (PInt 1), f_id := Some 7\<rparr>) example_conn)
     = Inl (Exc ''AssertionError'' [])
   \<and> read_and_dispatch False
         (Batch [empty_frame\<lparr>f_result := Some (PInt 1), f_id := Some 7\<rparr>,
                 empty_frame\<lparr>f_method := Some ''echo'', f_id := Some 8,
                   f_params := Some (Positional [PInt 5])\<rparr>]) example_conn
     = (False, log_call ''debug'' ''%s'' example_conn)
   \<and> write_thread_queue (snd (read_and_dispatch False
         (Batch [empty_frame\<lparr>f_method := Some ''echo'', f_id := Some 8,
                   f_params := Some (Positional [PInt 5])\<rparr>]) example_conn))
     = [response_frame 8 (PInt 5)]"
proof (intro conjI)
  show "fst (dispatch_item_single
          (empty_frame\<lparr>f_result := Some (PInt 1), f_id := Some 7\<rparr>) example_conn)
     = Inl (Exc ''AssertionError'' [])"
    by (simp add: example_unknown_response)
next
  show "read_and_dispatch False
         (Batch [empty_frame\<lparr>f_result := Some (PInt 1), f_id := Some 7\<rparr>,
                 empty_frame\<lparr>f_method := Some ''echo'', f_id := Some 8,
                   f_params := Some (Positional [PInt 5])\<rparr>]) example_conn
     = (False, log_call ''debug'' ''%s'' example_conn)"
    by (simp add: read_and_dispatch_def example_unknown_response)
next
  show "write_thread_queue (snd (read_and_dispatch False
         (Batch [empty_frame\<lparr>f_method := Some ''echo'', f_id := Some 8,
                   f_params := Some (Positional [PInt 5])\<rparr>]) example_conn))
     = [response_frame 8 (PInt 5)]"
    by (simp add: read_and_dispatch_def dispatch_item_single_def empty_frame_def
        extract_params_def str_keys_def find_object_def find_method_def example_conn_def
        Connection_init_def example_heap_def example_handler_def plain_object_def
        example_get_method_def invoke_def send_response_def send_def dumps_def
        encode_option_def bind_def conn_write_def response_frame_def Let_def)
qed

text \<open>
  C2, amended. A frame with a \<^verbatim>\<open>result\<close> key and no \<^verbatim>\<open>method\<close> key is a response. When its
  id is the id of a pending request, \<^verbatim>\<open>dispatch_item_single\<close> calls \<^verbatim>\<open>setresponse\<close> on
  the handle of that request and returns \<^verbatim>\<open>True\<close>. When it has no id, or an id that is
  not pending, \<^verbatim>\<open>dispatch_item_single\<close> raises \<^verbatim>\<open>AssertionError\<close> and changes nothing;
  \<^verbatim>\<open>read_and_dispatch\<close> catches the exception, logs it at debug level and returns
  \<^verbatim>\<open>False\<close>. The same holds when the response stands in a batch whose frames are dispatched
  inline, which they are unless \<^verbatim>\<open>thread\<close> is set and the connection is in threaded mode:
  the frames before it have been dispatched, the frames after it are not dispatched.
\<close>

theorem C2_response_dispatch:
  assumes "f_method item = None" and "f_result item = Some r"
  shows "(case (case f_id item of None \<Rightarrow> None | Some i \<Rightarrow> requests s i) of
            Some rq \<Rightarrow>
              dispatch_item_single item s = (Inr (Some True), setresponse rq item s)
              \<and> read_and_dispatch thread (Single item) s = (True, setresponse rq item s)
          | None \<Rightarrow>
              dispatch_item_single item s = (Inl (Exc ''AssertionError'' []), s)
              \<and> read_and_dispatch thread (Single item) s
                  = (False, log_call ''debug'' ''%s'' s)
              \<and> (\<forall>pre rest u s0.
                    \<not> (thread \<and> threaded s)
                    \<and> dispatch_each
                          (if thread then dispatch_item_threaded else dispatch_item_single)
                          pre s0 = (Inr u, s) \<longrightarrow>
                    read_and_dispatch thread (Batch (pre @ item # rest)) s0
                      = (False, log_call ''debug'' ''%s'' s)))"
proof (cases "case f_id item of None \<Rightarrow> None | Some i \<Rightarrow> requests s i")
  case (Some rq)
  then show ?thesis using assms
    by (auto simp: dispatch_item_single_def read_and_dispatch_def split: option.splits)
next
  case None
  have d: "dispatch_item_single item s = (Inl (Exc ''AssertionError'' []), s)"
    using assms None by (simp add: dispatch_item_single_def)
  have one: "read_and_dispatch thread (Single item) s = (False, log_call ''debug'' ''%s'' s)"
    using assms d by (simp add: read_and_dispatch_def)
  have batch: "read_and_dispatch thread (Batch (pre @ item # rest)) s0
                 = (False, log_call ''debug'' ''%s'' s)"
    if inline: "\<not> (thread \<and> threaded s)"
      and pre: "dispatch_each (if thread then dispatch_item_threaded else dispatch_item_single)
                  pre s0 = (Inr u, s)"
    for pre rest u s0
  proof -
    let ?d = "if thread then dispatch_item_threaded else dispatch_item_single"
    have "?d item s = (Inl (Exc ''AssertionError'' []), s)"
      using dispatch_inline[OF inline, of item] d by simp
    from batch_cut_short[OF pre this, of rest]
    show ?thesis by (simp add: read_and_dispatch_def)
  qed
  show ?thesis using None d one batch by simp
qed

theorem C2_response_dispatch_witness:
  "dispatch_item_single (empty_frame\<lparr>f_result := Some (PInt 1), f_id := Some 3\<rparr>)
      example_pending
     = (Inr (Some True),
        example_conn\<lparr>delivered :=
          [(3, empty_frame\<lparr>f_result := Some (PInt 1), f_id := Some 3\<rparr>)]\<rparr>)
   \<and> read_and_dispatch True (Single (empty_frame\<lparr>f_result := Some (PInt 1), f_id := Some 4\<rparr>))
       example_pending
     = (False, log_call ''debug'' ''%s'' example_pending)
   \<and> read_and_dispatch True
         (Batch [empty_frame\<lparr>f_result := Some (PInt 1), f_id := Some 4\<rparr>,
                 empty_frame\<lparr>f_method := Some ''echo'', f_id := Some 8,
                   f_params := Some (Positional [PInt 5])\<rparr>]) example_pending
     = (False, log_call ''debug'' ''%s'' example_pending)"
proof -
  let ?a = "empty_frame\<lparr>f_result := Some (PInt 1), f_id := Some 3\<rparr>"
  let ?b = "empty_frame\<lparr>f_result := Some (PInt 1), f_id := Some 4\<rparr>"
  let ?c = "empty_frame\<lparr>f_method := Some ''echo'', f_id := Some 8,
              f_params := Some (Positional [PInt 5])\<rparr>"
  have a: "f_method ?a = None" "f_result ?a = Some (PInt 1)"
    and b: "f_method ?b = None" "f_result ?b = Some (PInt 1)"
    by (simp_all add: empty_frame_def)
  have e: "example_pending\<lparr>delivered := [(3, ?a)], requests := Map.empty\<rparr>
             = example_conn\<lparr>delivered := [(3, ?a)]\<rparr>"
    by (simp add: example_pending_def example_conn_def Connection_init_def)
  have d: "delivered example_pending = []"
    by (simp add: example_pending_def example_conn_def Connection_init_def)
  have n: "(case f_id ?b of None \<Rightarrow> None | Some i \<Rightarrow> requests example_pending i) = None"
    by (simp add: empty_frame_def example_pending_def)
  have th: "\<not> (True \<and> threaded example_pending)"
    by (simp add: example_pending_def example_conn_def Connection_init_def)
  have pre: "dispatch_each (if True then dispatch_item_threaded else dispatch_item_single) []
               example_pending = (Inr None, example_pending)"
    by simp
  note t = C2_response_dispatch[OF b, of example_pending True]
  have one: "read_and_dispatch True (Single ?b) example_pending
               = (False, log_call ''debug'' ''%s'' example_pending)"
    using t n by simp
  have "\<forall>pre rest u s0.
          \<not> (True \<and> threaded example_pending)
          \<and> dispatch_each (if True then dispatch_item_threaded else dispatch_item_single)
                pre s0 = (Inr u, example_pending) \<longrightarrow>
          read_and_dispatch True (Batch (pre @ ?b # rest)) s0
            = (False, log_call ''debug'' ''%s'' example_pending)"
    using t n by simp
  then have "read_and_dispatch True (Batch ([] @ ?b # [?c])) example_pending
               = (False, log_call ''debug'' ''%s'' example_pending)"
    using th pre by blast
  then have batch: "read_and_dispatch True (Batch [?b, ?c]) example_pending
               = (False, log_call ''debug'' ''%s'' example_pending)"
    by simp
  have first: "dispatch_item_single ?a example_pending
                 = (Inr (Some True), example_conn\<lparr>delivered := [(3, ?a)]\<rparr>)"
    using C2_response_dispatch[OF a, of example_pending False] e d
    by (simp add: example_pending_def setresponse_def Let_def)
  show ?thesis using first one batch by simp
qed

section \<open>Method names with a dot\<close>

lemma take2_dotted:
  assumes "CHR ''.'' \<notin> set a"
  shows "take 2 (split_str (CHR ''.'') (a @ ''.'' @ rest))
           = [a, takeWhile (\<lambda>c. c \<noteq> CHR ''.'') rest]"
proof -
  obtain x xs where r: "split_str (CHR ''.'') rest = x # xs"
    by (cases "split_str (CHR ''.'') rest") auto
  then have "x = takeWhile (\<lambda>c. c \<noteq> CHR ''.'') rest"
    using split_str_hd[of "CHR ''.''" rest] by simp
  then show ?thesis
    using split_str_append[OF assms, of rest] r by (simp add: numeral_2_eq_2)
qed

lemma takeWhile_no_dot:
  "CHR ''.'' \<notin> set b \<Longrightarrow> takeWhile (\<lambda>c. c \<noteq> CHR ''.'') b = b"
  by (induction b) auto

lemma takeWhile_to_dot:
  "CHR ''.'' \<notin> set b \<Longrightarrow> takeWhile (\<lambda>c. c \<noteq> CHR ''.'') (b @ CHR ''.'' # c) = b"
  by (induction b) auto

lemma find_object_dotted:
  assumes "CHR ''.'' \<notin> set a"
  shows "find_object (a @ CHR ''.'' # rest) s =
     (case objects s a of
        None \<Rightarrow> (Inl (Exc ''ValueError'' ''Invalid object identifier''), s)
      | Some r \<Rightarrow>
          if takeWhile (\<lambda>c. c \<noteq> CHR ''.'') rest = ''__delete__''
          then bind (dispatch_delete a s) (\<lambda>u s'. (Inr None, s'))
          else (Inr (Some r), s))"
proof -
  have "CHR ''.'' \<in> set (a @ CHR ''.'' # rest)" by simp
  then show ?thesis
    using take2_dotted[OF assms, of rest] by (simp add: find_object_def del: set_append)
qed

lemma example_hosting_objects: "objects example_hosting = [''foo_0001'' \<mapsto> 1]"
  by (simp add: example_hosting_def dump_remoteobject_def example_conn_def
      Connection_init_def example_heap_def example_foo_def plain_object_def get_id_def
      Let_def lower_Foo hex4_1)

text \<open>
  C3, as the spec has it, fails. The name is not split once: on a connection that hosts
  \<^verbatim>\<open>foo_0001\<close>, the request \<^verbatim>\<open>foo_0001.__delete__.now\<close> deletes the object, so its
  method part is \<^verbatim>\<open>__delete__\<close> and not \<^verbatim>\<open>__delete__.now\<close>. And on a connection that hosts
  nothing the request \<^verbatim>\<open>ghost.foo\<close> with id 7 gets no reply: \<^verbatim>\<open>dispatch_item_single\<close>
  raises \<^verbatim>\<open>ValueError\<close> and the write queue stays empty.
\<close>

theorem C3_unknown_object_no_reply:
  "objects (snd (dispatch_item_single
      (empty_frame\<lparr>f_method := Some ''foo_0001.__delete__.now'', f_id := Some 7\<rparr>)
      example_hosting)) = Map.empty
   \<and> dispatch_item_single (empty_frame\<lparr>f_method := Some ''ghost.foo'', f_id := Some 7\<rparr>)
       example_conn
     = (Inl (Exc ''ValueError'' ''Invalid object identifier''), example_conn)
   \<and> write_thread_queue (snd (read_and_dispatch False
       (Single (empty_frame\<lparr>f_method := Some ''ghost.foo'', f_id := Some 7\<rparr>))
       example_conn)) = []"
proof (intro conjI)
  have "find_object (''foo_0001'' @ ''.'' @ ''__delete__.now'') example_hosting
          = bind (dispatch_delete ''foo_0001'' example_hosting) (\<lambda>u s'. (Inr None, s'))"
    using find_object_dotted[of "''foo_0001''" "''__delete__.now''" example_hosting]
    by (simp add: example_hosting_objects)
  then show "objects (snd (dispatch_item_single
      (empty_frame\<lparr>f_method := Some ''foo_0001.__delete__.now'', f_id := Some 7\<rparr>)
      example_hosting)) = Map.empty"
    by (simp add: dispatch_item_single_def empty_frame_def split_beta bind_def
        dispatch_delete_def example_hosting_objects Let_def
        split: option.splits sum.splits)
next
  have g: "find_object (''ghost'' @ ''.'' @ ''foo'') example_conn
          = (Inl (Exc ''ValueError'' ''Invalid object identifier''), example_conn)"
    using find_object_dotted[of "''ghost''" "''foo''" example_conn]
    by (simp add: example_conn_def Connection_init_def)
  then show "dispatch_item_single
       (empty_frame\<lparr>f_method := Some ''ghost.foo'', f_id := Some 7\<rparr>) example_conn
     = (Inl (Exc ''ValueError'' ''Invalid object identifier''), example_conn)"
    by (simp add: dispatch_item_single_def empty_frame_def split_beta)
  then show "write_thread_queue (snd (read_and_dispatch False
       (Single (empty_frame\<lparr>f_method := Some ''ghost.foo'', f_id := Some 7\<rparr>))
       example_conn)) = []"
    by (simp add: read_and_dispatch_def empty_frame_def example_conn_def Connection_init_def)
qed

text \<open>
  C3, amended. \<^verbatim>\<open>_find_object\<close> takes the first two of the parts that the dots of the
  method name separate. The first part has to name a hosted object: when it does not,
  \<^verbatim>\<open>_find_object\<close> raises \<^verbatim>\<open>ValueError("Invalid object identifier")\<close> and changes nothing;
  when it does and the second part is not \<^verbatim>\<open>__delete__\<close>, that object is the target. What
  follows a second dot is ignored.
\<close>

theorem C3_find_object_dotted_name:
  assumes "CHR ''.'' \<notin> set a"
  shows "(objects s a = None \<longrightarrow>
            find_object (a @ ''.'' @ rest) s
              = (Inl (Exc ''ValueError'' ''Invalid object identifier''), s))
       \<and> (\<forall>r. objects s a = Some r \<and> CHR ''.'' \<notin> set b \<and> b \<noteq> ''__delete__'' \<longrightarrow>
            find_object (a @ ''.'' @ b) s = (Inr (Some r), s))
       \<and> (CHR ''.'' \<notin> set b \<longrightarrow>
            find_object (a @ ''.'' @ b @ ''.'' @ c) s = find_object (a @ ''.'' @ b) s)"
proof (intro conjI allI impI)
  assume "objects s a = None"
  then show "find_object (a @ ''.'' @ rest) s
      = (Inl (Exc ''ValueError'' ''Invalid object identifier''), s)"
    by (simp add: find_object_dotted[OF assms])
next
  fix r assume "objects s a = Some r \<and> CHR ''.'' \<notin> set b \<and> b \<noteq> ''__delete__''"
  then show "find_object (a @ ''.'' @ b) s = (Inr (Some r), s)"
    by (simp add: find_object_dotted[OF assms] takeWhile_no_dot)
next
  assume "CHR ''.'' \<notin> set b"
  then show "find_object (a @ ''.'' @ b @ ''.'' @ c) s = find_object (a @ ''.'' @ b) s"
    by (simp add: find_object_dotted[OF assms] takeWhile_no_dot takeWhile_to_dot
        cong: option.case_cong)
qed

theorem C3_find_object_dotted_name_witness:
  "find_object ''ghost.foo'' example_conn
     = (Inl (Exc ''ValueError'' ''Invalid object identifier''), example_conn)
   \<and> find_object ''foo_0001.echo'' example_hosting = (Inr (Some 1), example_hosting)
   \<and> find_object ''foo_0001.echo.twice'' example_hosting = (Inr (Some 1), example_hosting)"
proof -
  have g: "CHR ''.'' \<notin> set ''ghost''" and f: "CHR ''.'' \<notin> set ''foo_0001''"
    and e: "CHR ''.'' \<notin> set ''echo''" "''echo'' \<noteq> ''__delete__''"
    by simp_all
  have n: "objects example_conn ''ghost'' = None"
    by (simp add: example_conn_def Connection_init_def)
  have h: "objects example_hosting ''foo_0001'' = Some 1"
    by (simp add: example_hosting_objects)
  note t1 = C3_find_object_dotted_name[OF g, of example_conn "''foo''"]
  note t2 = C3_find_object_dotted_name[OF f, of example_hosting _ "''echo''" "''twice''"]
  have a: "find_object (''ghost'' @ ''.'' @ ''foo'') example_conn
     = (Inl (Exc ''ValueError'' ''Invalid object identifier''), example_conn)"
    using t1[THEN conjunct1] n by simp
  have b: "find_object (''foo_0001'' @ ''.'' @ ''echo'') example_hosting
     = (Inr (Some 1), example_hosting)"
    using t2[THEN conjunct2, THEN conjunct1] h e by blast
  have c: "find_object (''foo_0001'' @ ''.'' @ ''echo'' @ ''.'' @ ''twice'') example_hosting
     = find_object (''foo_0001'' @ ''.'' @ ''echo'') example_hosting"
    using t2[THEN conjunct2, THEN conjunct2] e by blast
  show ?thesis using a b c by simp
qed

section \<open>Arguments of a call, encoded and decoded\<close>

text \<open>
  C4. \<^verbatim>\<open>proxy\<close> puts non-empty positional arguments in \<^verbatim>\<open>params\<close> and the keyword
  arguments, when there are any, in \<^verbatim>\<open>kwparams\<close>; without positional arguments the
  keyword arguments, when there are any, go in \<^verbatim>\<open>params\<close>; with neither, both keys are
  left out. \<^verbatim>\<open>_extract_params\<close> gives back, from the frame \<^verbatim>\<open>proxy\<close> has built, the method
  name and exactly the arguments of the call. The keyword arguments are a Python dictionary:
  no key occurs twice.
\<close>

theorem C4_params_roundtrip:
  "distinct (map fst kwargs) \<Longrightarrow>
     extract_params (fst (proxy_data st name args kwargs s)) = (Some name, args, kwargs)
     \<and> f_params (fst (proxy_data st name args kwargs s))
         = (if args \<noteq> [] then Some (Positional args)
            else if kwargs \<noteq> [] then Some (Keyword kwargs) else None)
     \<and> f_kwparams (fst (proxy_data st name args kwargs s))
         = (if args \<noteq> [] \<and> kwargs \<noteq> [] then Some kwargs else None)"
  by (cases args; cases kwargs)
     (auto simp: proxy_data_def extract_params_def empty_frame_def get_id_def Let_def
        str_keys_dict split: prod.splits)

theorem C4_params_roundtrip_witness:
  "extract_params (fst (proxy_data Sync_call ''add'' [PInt 1] [(''by'', PInt 2)] example_conn))
     = (Some ''add'', [PInt 1], [(''by'', PInt 2)])
   \<and> extract_params (fst (proxy_data Sync_notify ''add'' [] [(''by'', PInt 2)] example_conn))
     = (Some ''add'', [], [(''by'', PInt 2)])
   \<and> f_params (fst (proxy_data Sync_notify ''add'' [] [(''by'', PInt 2)] example_conn))
     = Some (Keyword [(''by'', PInt 2)])"
  using C4_params_roundtrip[of "[(''by'', PInt 2)]" Sync_call "''add''" "[PInt 1]" example_conn]
    C4_params_roundtrip[of "[(''by'', PInt 2)]" Sync_notify "''add''" "[]" example_conn]
  by simp

section \<open>Generators\<close>

lemma find_object_Some:
  "find_object name s = (Inr (Some obj), s1) \<Longrightarrow> s1 = s"
  by (auto simp: find_object_def bind_def
      split: if_splits list.splits option.splits prod.splits sum.splits)

lemma find_method_GeneratorFunction:
  "find_method obj name s = (GeneratorFunction g, s2) \<Longrightarrow> s2 = s"
  by (auto simp: find_method_def split_beta split: option.splits sum.splits exc.splits)

lemma send_error_ok:
  assumes "f_id item = Some i"
  shows "send_error item (PStr m) s
           = (Inr (), s\<lparr>write_thread_queue := write_thread_queue s @ [error_frame i (PStr m)]\<rparr>)"
  using assms
  by (simp add: send_error_def send_def dumps_def error_frame_def empty_frame_def
      encode_option_def bind_def conn_write_def)

lemma invoke_generator:
  assumes "f_id item = Some i" and "g args kw = (ys, fin)"
    and "encode_list ys s = (Inr vs, s')"
  shows "invoke item (GeneratorFunction g) args kw s
     = ((case fin of None \<Rightarrow> Inr () | Some e \<Rightarrow> Inl e),
        s'\<lparr>write_thread_queue := write_thread_queue s @ map (response_frame i) vs\<rparr>)"
  using send_responses_ok[OF assms(1) assms(3)] assms(2)
  by (simp add: invoke_def split: option.splits)

lemma dispatch_generator:
  assumes "f_method item = Some name" and "f_id item = Some i"
    and "find_object name s = (Inr (Some obj), s1)"
    and "find_method obj name s1 = (GeneratorFunction g, s2)"
    and "g (fst (snd (extract_params item))) (snd (snd (extract_params item))) = (ys, fin)"
    and "encode_list ys s2 = (Inr vs, s3)"
  shows "fst (dispatch_item_single item s) = Inr (Some True)
       \<and> write_thread_queue (snd (dispatch_item_single item s))
           = write_thread_queue s @ map (response_frame i) vs @
             (case fin of
                None \<Rightarrow> []
              | Some (ServerError m) \<Rightarrow> [error_frame i (PStr m)]
              | Some (Exc t m) \<Rightarrow> [error_frame i (PStr (t @ '': '' @ m))])
       \<and> length vs = length ys"
proof -
  have s1: "s1 = s" using find_object_Some[OF assms(3)] .
  have s2: "s2 = s" using find_method_GeneratorFunction[OF assms(4)] s1 by simp
  let ?args = "fst (snd (extract_params item))" and ?kw = "snd (snd (extract_params item))"
  let ?s4 = "s3\<lparr>write_thread_queue := write_thread_queue s @ map (response_frame i) vs\<rparr>"
  have inv: "invoke item (GeneratorFunction g) ?args ?kw s
     = ((case fin of None \<Rightarrow> Inr () | Some e \<Rightarrow> Inl e), ?s4)"
    using invoke_generator[where g = g and args = ?args and kw = ?kw and s = s
        and vs = vs and s' = s3, OF assms(2) assms(5)] assms(6) s2
    by simp
  have d: "dispatch_item_single item s =
     (case invoke item (GeneratorFunction g) ?args ?kw s of
        (Inr u, s3) \<Rightarrow> (Inr (Some True), s3)
      | (Inl (ServerError m), s3) \<Rightarrow>
          bind (send_error item (PStr m) s3) (\<lambda>u s4. (Inr (Some True), s4))
      | (Inl (Exc t m), s3) \<Rightarrow>
          (let (err, s4) = format_exception (Exc t m) s3
           in bind (send_error item (PStr err) s4) (\<lambda>u s5. (Inr (Some True), s5))))"
    using assms(1,3,4) s1 s2
    by (simp add: dispatch_item_single_def split_beta
        cong: sum.case_cong exc.case_cong)
  have len: "length vs = length ys" using encode_list_length[OF assms(6)] by simp
  show ?thesis
  proof (cases fin)
    case None
    then show ?thesis using d inv len by simp
  next
    case (Some e)
    show ?thesis
    proof (cases e)
      case (ServerError m)
      then show ?thesis using d inv len Some
        by (simp add: send_error_ok[OF assms(2)] bind_def)
    next
      case (Exc t m)
      then show ?thesis using d inv len Some
        by (simp add: send_error_ok[OF assms(2)] bind_def format_exception_def)
    qed
  qed
qed

text \<open>
  The generators of the example handler whose values the codec can serialise: one frame for
  each value of \<^verbatim>\<open>count\<close>; for \<^verbatim>\<open>half\<close>, which raises after its one value, the frame for
  the value and then an error frame.
\<close>

lemma example_generators:
  "write_thread_queue (snd (dispatch_item_single
       (empty_frame\<lparr>f_method := Some ''count'', f_id := Some 7\<rparr>) example_conn))
     = [response_frame 7 (PInt 1), response_frame 7 (PInt 2), response_frame 7 (PInt 3)]
   \<and> write_thread_queue (snd (dispatch_item_single
       (empty_frame\<lparr>f_method := Some ''half'', f_id := Some 7\<rparr>) example_conn))
     = [response_frame 7 (PInt 1), error_frame 7 (PStr ''RuntimeError: x'')]"
proof -
  let ?count = "empty_frame\<lparr>f_method := Some ''count'', f_id := Some 7\<rparr>"
  let ?half = "empty_frame\<lparr>f_method := Some ''half'', f_id := Some 7\<rparr>"
  let ?g = "\<lambda>(args :: pyval list) (kw :: pydict). ([PInt 1, PInt 2, PInt 3], None :: exc option)"
  let ?h = "\<lambda>(args :: pyval list) (kw :: pydict).
              ([PInt 1], Some (Exc ''RuntimeError'' ''x''))"
  have m: "f_method ?count = Some ''count''" "f_id ?count = Some 7"
          "f_method ?half = Some ''half''" "f_id ?half = Some 7"
    by (simp_all add: empty_frame_def)
  have fo: "find_object ''count'' example_conn = (Inr (Some 0), example_conn)"
           "find_object ''half'' example_conn = (Inr (Some 0), example_conn)"
    by (simp_all add: find_object_def example_conn_def Connection_init_def)
  have fm: "find_method 0 ''count'' example_conn = (GeneratorFunction ?g, example_conn)"
           "find_method 0 ''half'' example_conn = (GeneratorFunction ?h, example_conn)"
    by (simp_all add: find_method_def example_conn_def Connection_init_def example_heap_def
        example_handler_def plain_object_def example_get_method_def)
  have g: "?g (fst (snd (extract_params ?count))) (snd (snd (extract_params ?count)))
             = ([PInt 1, PInt 2, PInt 3], None)"
          "?h (fst (snd (extract_params ?half))) (snd (snd (extract_params ?half)))
             = ([PInt 1], Some (Exc ''RuntimeError'' ''x''))"
    by simp_all
  have e: "encode_list [PInt 1, PInt 2, PInt 3] example_conn
             = (Inr [PInt 1, PInt 2, PInt 3], example_conn)"
          "encode_list [PInt 1] example_conn = (Inr [PInt 1], example_conn)"
    by simp_all
  have q: "write_thread_queue example_conn = []"
    by (simp add: example_conn_def Connection_init_def)
  show ?thesis
    using dispatch_generator[where g = ?g and item = ?count and name = "''count''"
        and s = example_conn and ys = "[PInt 1, PInt 2, PInt 3]" and fin = None,
        OF m(1,2) fo(1) fm(1) g(1) e(1)]
      dispatch_generator[where g = ?h and item = ?half and name = "''half''"
        and s = example_conn and ys = "[PInt 1]"
        and fin = "Some (Exc ''RuntimeError'' ''x'')",
        OF m(3,4) fo(2) fm(2) g(2) e(2)] q
    by simp
qed

text \<open>
  C5 fails on the code for a generator that yields a value the codec cannot serialise. The
  generator \<^verbatim>\<open>leak\<close> of the example handler yields two values, an instance of
  \<^verbatim>\<open>object\<close> and the number 1. For the request \<^verbatim>\<open>leak\<close> with id 7 the codec raises on the
  first value; \<^verbatim>\<open>_send\<close> logs the error and, building its substitute response, reads the
  name \<^verbatim>\<open>item\<close>, which is not defined there. The \<^verbatim>\<open>NameError\<close> ends the loop over the
  generator: one frame is queued for the two values, an error frame that names the
  \<^verbatim>\<open>NameError\<close>, and the second value is never sent.
\<close>

theorem C5_unserialisable_yield_ends_generator:
  "(case example_get_method ''leak'' of
      Inr (GeneratorFunction g) \<Rightarrow> length (fst (g [] [])) = 2 \<and> snd (g [] []) = None
    | _ \<Rightarrow> False)
   \<and> fst (dispatch_item_single
       (empty_frame\<lparr>f_method := Some ''leak'', f_id := Some 7\<rparr>) example_conn)
     = Inr (Some True)
   \<and> write_thread_queue (snd (dispatch_item_single
       (empty_frame\<lparr>f_method := Some ''leak'', f_id := Some 7\<rparr>) example_conn))
     = [error_frame 7 (PStr ''NameError: name 'item' is not defined'')]
   \<and> logged (snd (dispatch_item_single
       (empty_frame\<lparr>f_method := Some ''leak'', f_id := Some 7\<rparr>) example_conn))
     = [(''error'', ''An unexpected error ocurred when trying to create the message: %r''),
        (''error'', ''(%s) In Handler method %s.%s(%s) ''),
        (''debug'', ''%s''),
        (''error'', ''Unhandled error: %s: %s'')]"
  by (simp add: dispatch_item_single_def empty_frame_def extract_params_def str_keys_def
      find_object_def find_method_def example_conn_def Connection_init_def example_heap_def
      example_handler_def plain_object_def example_get_method_def invoke_def
      send_response_def send_error_def send_def dumps_def encode_option_def bind_def
      conn_write_def response_frame_def error_frame_def dump_object_def format_exception_def
      log_call_def Let_def)

section \<open>Notifications are never answered\<close>

text \<open>
  C6. A frame without an id (a notification) puts nothing on the write queue, whatever
  the handler does: \<^verbatim>\<open>dispatch_item_single\<close> and \<^verbatim>\<open>read_and_dispatch\<close> leave the queue as
  it was. When the target object is found, what \<^verbatim>\<open>get_method\<close> or the handler raises is
  swallowed: \<^verbatim>\<open>dispatch_item_single\<close> returns \<^verbatim>\<open>True\<close>.
\<close>

theorem C6_notification_silence:
  "f_id item = None \<Longrightarrow>
     write_thread_queue (snd (dispatch_item_single item s)) = write_thread_queue s
     \<and> write_thread_queue (snd (read_and_dispatch thread (Single item) s))
         = write_thread_queue s
     \<and> (\<forall>name obj s1.
           f_method item = Some name \<and> find_object name s = (Inr (Some obj), s1) \<longrightarrow>
           fst (dispatch_item_single item s) = Inr (Some True))"
  using dispatch_notification[of item s] read_and_dispatch_notification[of item thread s]
    dispatch_request_notification[of item _ s]
  by blast

theorem C6_notification_silence_witness:
  "write_thread_queue (snd (dispatch_item_single
       (empty_frame\<lparr>f_method := Some ''boom''\<rparr>) example_conn)) = []
   \<and> fst (dispatch_item_single (empty_frame\<lparr>f_method := Some ''boom''\<rparr>) example_conn)
       = Inr (Some True)
   \<and> fst (dispatch_item_single (empty_frame\<lparr>f_method := Some ''nosuch''\<rparr>) example_conn)
       = Inr (Some True)"
proof -
  have i: "f_id (empty_frame\<lparr>f_method := Some ''boom''\<rparr>) = None"
          "f_id (empty_frame\<lparr>f_method := Some ''nosuch''\<rparr>) = None"
    by (simp_all add: empty_frame_def)
  have fo: "find_object ''boom'' example_conn = (Inr (Some 0), example_conn)"
           "find_object ''nosuch'' example_conn = (Inr (Some 0), example_conn)"
    by (simp_all add: find_object_def example_conn_def Connection_init_def)
  have q: "write_thread_queue example_conn = []"
    by (simp add: example_conn_def Connection_init_def)
  show ?thesis
    using C6_notification_silence[OF i(1), of example_conn False]
      C6_notification_silence[OF i(2), of example_conn False] fo q
    by simp
qed

section \<open>Deleting a hosted object\<close>

text \<open>
  C7. An inbound call \<^verbatim>\<open><name>.__delete__\<close> for a hosted object (a name without a dot, as
  every synthetic name is) removes the name from the table of hosted objects and puts
  nothing on the write queue, with or without an id in the frame;
  \<^verbatim>\<open>dispatch_item_single\<close> returns \<^verbatim>\<open>None\<close>. When the object has a \<^verbatim>\<open>_shutdown\<close> hook
  it is called once, and the removal takes place whether the hook returns or raises. What
  the hook raises is swallowed and logged: an error line and a debug line with the
  traceback go to the log, as they do for an object without the hook; when the hook returns,
  nothing is logged.
\<close>

theorem C7_delete_hosted_object:
  assumes "CHR ''.'' \<notin> set name"
      and "objects s name = Some r"
      and "f_method item = Some (name @ ''.__delete__'')"
  shows "\<exists>s'. dispatch_item_single item s = (Inr None, s')
           \<and> objects s' = (objects s)(name := None)
           \<and> write_thread_queue s' = write_thread_queue s
           \<and> (shutdown_hook (heap s r) \<noteq> None \<longrightarrow>
                shutdown_calls s' = shutdown_calls s @ [r])
           \<and> logged s' = logged s @
                (case shutdown_hook (heap s r) of
                   Some (Inr u) \<Rightarrow> []
                 | Some (Inl e) \<Rightarrow>
                     [(''error'', ''Error when shutting down the object %s:''),
                      (''debug'', ''%s'')]
                 | None \<Rightarrow>
                     [(''error'', ''Error when shutting down the object %s:''),
                      (''debug'', ''%s'')])"
proof -
  have dot: "CHR ''.'' \<in> set (name @ ''.__delete__'')" by simp
  obtain s' where d: "dispatch_delete name s = (Inr (), s')"
    and o: "objects s' = (objects s)(name := None)"
    and q: "write_thread_queue s' = write_thread_queue s"
    and h: "shutdown_hook (heap s r) \<noteq> None \<longrightarrow> shutdown_calls s' = shutdown_calls s @ [r]"
    and l: "logged s' = logged s @
              (case shutdown_hook (heap s r) of
                 Some (Inr u) \<Rightarrow> []
               | Some (Inl e) \<Rightarrow>
                   [(''error'', ''Error when shutting down the object %s:''),
                    (''debug'', ''%s'')]
               | None \<Rightarrow>
                   [(''error'', ''Error when shutting down the object %s:''),
                    (''debug'', ''%s'')])"
    using assms(2)
    by (auto simp: dispatch_delete_def Let_def log_call_def split: option.splits sum.splits)
  have "find_object (name @ ''.__delete__'') s = (Inr None, s')"
    using dot assms(2) d split_delete[OF assms(1)]
    by (simp add: find_object_def bind_def del: set_append)
  then have "dispatch_item_single item s = (Inr None, s')"
    using assms(3) by (simp add: dispatch_item_single_def split_beta)
  with o q h l show ?thesis by blast
qed

theorem C7_delete_hosted_object_witness:
  "\<exists>s'. dispatch_item_single
          (empty_frame\<lparr>f_method := Some ''foo_0001.__delete__'', f_id := Some 99\<rparr>)
          example_hosting = (Inr None, s')
        \<and> objects s' ''foo_0001'' = None
        \<and> write_thread_queue s' = []
        \<and> shutdown_calls s' = [1]
        \<and> logged s' = [(''error'', ''Error when shutting down the object %s:''),
                         (''debug'', ''%s'')]"
proof -
  have ex: "example_hosting =
      example_conn\<lparr>id_counter := 1, objects := [''foo_0001'' \<mapsto> 1],
        heap := example_heap(1 := example_foo\<lparr>remoteobjects := Some [(10, ''foo_0001'')]\<rparr>)\<rparr>"
    by (simp add: example_hosting_def dump_remoteobject_def example_conn_def
        Connection_init_def example_heap_def example_foo_def plain_object_def get_id_def
        Let_def lower_Foo hex4_1)
  have a: "CHR ''.'' \<notin> set ''foo_0001''" by simp
  have b: "objects example_hosting ''foo_0001'' = Some 1" by (simp add: ex)
  have c: "f_method (empty_frame\<lparr>f_method := Some ''foo_0001.__delete__'', f_id := Some 99\<rparr>)
             = Some (''foo_0001'' @ ''.__delete__'')"
    by simp
  have d: "shutdown_hook (heap example_hosting 1) \<noteq> None"
    by (simp add: ex example_foo_def plain_object_def)
  have e: "write_thread_queue example_hosting = []" "shutdown_calls example_hosting = []"
    "logged example_hosting = []"
    by (simp_all add: ex example_conn_def Connection_init_def)
  have f: "shutdown_hook (heap example_hosting 1) = Some (Inl (Exc ''RuntimeError'' ''busy''))"
    by (simp add: ex example_foo_def plain_object_def)
  from C7_delete_hosted_object[OF a b c] d e f show ?thesis by auto
qed

section \<open>The encode hook on callables\<close>

text \<open>
  C8. A function or bound method given to \<^verbatim>\<open>dump_object\<close> whose \<^verbatim>\<open>_conn\<close> is this
  connection is encoded as the single-key hint \<^verbatim>\<open>{'__functionreference__': name}\<close>; when
  its \<^verbatim>\<open>_conn\<close> is anything else, \<^verbatim>\<open>dump_object\<close> raises \<^verbatim>\<open>TypeError\<close>. Either way the
  state of the connection, its write queue included, is left as it was.
\<close>

theorem C8_dump_object_callable:
  "(conn = Some (self s) \<longrightarrow>
      dump_object (Function name conn) s
        = (Inr (PDict [(''__functionreference__'', PStr name)]), s))
   \<and> (conn \<noteq> Some (self s) \<longrightarrow>
      (\<exists>msg. dump_object (Function name conn) s = (Inl (Exc ''TypeError'' msg), s)))"
  by (simp add: dump_object_def dump_functionreference_def hint_def)

theorem C8_dump_object_callable_witness:
  "dump_object (Function ''ping'' (Some 10)) example_conn
     = (Inr (PDict [(''__functionreference__'', PStr ''ping'')]), example_conn)
   \<and> (\<exists>msg. dump_object (Function ''ping'' (Some 11)) example_conn
              = (Inl (Exc ''TypeError'' msg), example_conn))"
  using C8_dump_object_callable [of "Some 10" example_conn "''ping''"]
        C8_dump_object_callable [of "Some 11" example_conn "''ping''"]
  by (simp add: example_conn_def Connection_init_def)

section \<open>Registering a hosted object once\<close>









section \<open>The method branch comes first\<close>

text \<open>
  C10. A frame with both a \<^verbatim>\<open>method\<close> key and a \<^verbatim>\<open>result\<close> key is dispatched as a method
  invocation: \<^verbatim>\<open>dispatch_item_single\<close> does with it what it does with the same frame
  without its \<^verbatim>\<open>result\<close> key, and neither the pending requests nor the responses
  delivered to handles change. \<^verbatim>\<open>read_and_dispatch\<close> dispatches such a frame inline,
  whatever its \<^verbatim>\<open>thread\<close> argument says.
\<close>

theorem C10_method_takes_precedence:
  assumes "f_method item = Some name" and "f_result item = Some r"
  shows "dispatch_item_single item s = dispatch_item_single (item\<lparr>f_result := None\<rparr>) s
       \<and> requests (snd (dispatch_item_single item s)) = requests s
       \<and> delivered (snd (dispatch_item_single item s)) = delivered s
       \<and> read_and_dispatch thread (Single item) s = read_and_dispatch False (Single item) s"
  using assms dispatch_request_result[OF assms(1), of None s]
    pending_dispatch_request[OF assms(1), of s]
  by (simp add: read_and_dispatch_def)

theorem C10_method_takes_precedence_witness:
  "write_thread_queue (snd (dispatch_item_single
       (empty_frame\<lparr>f_method := Some ''echo'', f_id := Some 5,
          f_params := Some (Positional [PStr ''hi'']), f_result := Some (PInt 0)\<rparr>)
       (example_conn\<lparr>requests := [5 \<mapsto> \<lparr>request_id = 5, auto_close = True\<rparr>]\<rparr>)))
     = [response_frame 5 (PStr ''hi'')]
   \<and> requests (snd (dispatch_item_single
       (empty_frame\<lparr>f_method := Some ''echo'', f_id := Some 5,
          f_params := Some (Positional [PStr ''hi'']), f_result := Some (PInt 0)\<rparr>)
       (example_conn\<lparr>requests := [5 \<mapsto> \<lparr>request_id = 5, auto_close = True\<rparr>]\<rparr>))) 5
     = Some \<lparr>request_id = 5, auto_close = True\<rparr>"
proof -
  let ?item = "empty_frame\<lparr>f_method := Some ''echo'', f_id := Some 5,
          f_params := Some (Positional [PStr ''hi'']), f_result := Some (PInt 0)\<rparr>"
  let ?s = "example_conn\<lparr>requests := [5 \<mapsto> \<lparr>request_id = 5, auto_close = True\<rparr>]\<rparr>"
  have m: "f_method ?item = Some ''echo''" and r: "f_result ?item = Some (PInt 0)"
    by (simp_all add: empty_frame_def)
  have q: "write_thread_queue (snd (dispatch_item_single (?item\<lparr>f_result := None\<rparr>) ?s))
             = [response_frame 5 (PStr ''hi'')]"
    by (simp add: dispatch_item_single_def extract_params_def str_keys_def empty_frame_def
        find_object_def find_method_def example_conn_def Connection_init_def example_heap_def
        example_handler_def plain_object_def example_get_method_def invoke_def
        send_response_def send_def dumps_def encode_option_def bind_def conn_write_def
        response_frame_def)
  note t = C10_method_takes_precedence[OF m r, of ?s False]
  have g1: "write_thread_queue (snd (dispatch_item_single ?item ?s))
              = [response_frame 5 (PStr ''hi'')]"
    using t[THEN conjunct1] q by (simp only:)
  have g2: "requests (snd (dispatch_item_single ?item ?s)) 5
              = Some \<lparr>request_id = 5, auto_close = True\<rparr>"
    using t[THEN conjunct2, THEN conjunct1] by simp
  from g1 g2 show ?thesis by (rule conjI)
qed

end
